theory Spec2Isabelle
  imports Main "HOL-Library.Log_Nat"
begin

section \<open>Scan reconciliation: LibraryItemScanData\<close>

text \<open>
  The reconciler is \<^verbatim>\<open>checkLibraryItemData\<close> with its helper
  \<^verbatim>\<open>compareUpdateLibraryFile\<close> (server/scanner/LibraryItemScanData.js, the class
  at the head of the file). The module constant \<^verbatim>\<open>IGNORE_FILE_METADATA_CHANGES\<close>
  is read from the process environment once; here it is the argument \<open>ignore\<close>
  (True is the Tolerant policy, False the Strict one). Calls of
  \<^verbatim>\<open>libraryScan.addLog\<close> only write log lines and are left out.
\<close>

subsection \<open>Records\<close>

text \<open>
  Modelled from the spec: the classes LibraryFile and LibraryItem are not under src/; the
  fields are those of the spec's LibraryFileRecord and LibraryItemRecord, with the names
  the code uses. A field that JavaScript may leave undefined or null is an option.
  Field names carry a prefix because a name can be a field of one record only:
  \<open>md_\<close> for \<^verbatim>\<open>libraryFile.metadata\<close>, \<open>lf_\<close> for a library file,
  \<open>li_\<close> for the persisted library item, \<open>sd_\<close> for the scan data (\<^verbatim>\<open>this\<close>).
\<close>

record fileMetadata =
  md_path :: string
  md_relPath :: string
  md_size :: nat
  md_mtimeMs :: int
  md_ctimeMs :: int

record libraryFile =
  lf_ino :: "nat option"
  lf_metadata :: fileMetadata
  lf_isSupplementary :: bool
  lf_isEBookFile :: bool
  lf_updatedAt :: int

record libraryItem =
  li_ino :: "nat option"
  li_libraryFolderId :: string
  li_path :: string
  li_relPath :: string
  li_isFile :: bool
  li_mtime :: "int option"
  li_ctime :: "int option"
  li_birthtime :: "int option"
  li_size :: nat
  li_libraryFiles :: "libraryFile list"
  li_isMissing :: bool
  li_lastScan :: "int option"
  li_lastScanVersion :: "string option"

record libraryItemScanData =
  sd_ino :: "nat option"
  sd_libraryFolderId :: string
  sd_path :: string
  sd_relPath :: string
  sd_isFile :: bool
  sd_mtimeMs :: "int option"
  sd_ctimeMs :: "int option"
  sd_birthtimeMs :: "int option"
  sd_libraryFiles :: "libraryFile list"

subsection \<open>compareUpdateLibraryFile\<close>

text \<open>
  \<^verbatim>\<open>for (const key in existingLibraryFile.metadata)\<close> runs over the keys of the
  metadata object; \<open>md_differs\<close> is \<^verbatim>\<open>existing.metadata[key] !== scanned.metadata[key]\<close>
  and \<open>md_copy\<close> is \<^verbatim>\<open>existing.metadata[key] = scanned.metadata[key]\<close>.
\<close>

datatype metaKey = K_path | K_relPath | K_size | K_mtimeMs | K_ctimeMs

definition metadataKeys :: "metaKey list" where
  "metadataKeys = [K_path, K_relPath, K_size, K_mtimeMs, K_ctimeMs]"

fun md_differs :: "metaKey \<Rightarrow> fileMetadata \<Rightarrow> fileMetadata \<Rightarrow> bool" where
  "md_differs K_path a b = (md_path a \<noteq> md_path b)"
| "md_differs K_relPath a b = (md_relPath a \<noteq> md_relPath b)"
| "md_differs K_size a b = (md_size a \<noteq> md_size b)"
| "md_differs K_mtimeMs a b = (md_mtimeMs a \<noteq> md_mtimeMs b)"
| "md_differs K_ctimeMs a b = (md_ctimeMs a \<noteq> md_ctimeMs b)"

fun md_copy :: "metaKey \<Rightarrow> fileMetadata \<Rightarrow> fileMetadata \<Rightarrow> fileMetadata" where
  "md_copy K_path scanned m = m\<lparr>md_path := md_path scanned\<rparr>"
| "md_copy K_relPath scanned m = m\<lparr>md_relPath := md_relPath scanned\<rparr>"
| "md_copy K_size scanned m = m\<lparr>md_size := md_size scanned\<rparr>"
| "md_copy K_mtimeMs scanned m = m\<lparr>md_mtimeMs := md_mtimeMs scanned\<rparr>"
| "md_copy K_ctimeMs scanned m = m\<lparr>md_ctimeMs := md_ctimeMs scanned\<rparr>"

text \<open>One round of the loop over the metadata keys; the state is the existing file's
  metadata and the local \<^verbatim>\<open>hasChanges\<close>.\<close>

definition compareKey ::
  "bool \<Rightarrow> fileMetadata \<Rightarrow> fileMetadata \<times> bool \<Rightarrow> metaKey \<Rightarrow> fileMetadata \<times> bool" where
  "compareKey ignore scanned st key =
     (let m = fst st; hasChanges = snd st in
      if ignore \<and> (key = K_mtimeMs \<or> key = K_ctimeMs) then (md_copy key scanned m, hasChanges)
      else if md_differs key m scanned then
        (if key = K_size \<or> key = K_path \<or> key = K_relPath then (md_copy key scanned m, True)
         else if \<not> ignore then (md_copy key scanned m, True)
         else (md_copy key scanned m, hasChanges))
      else (m, hasChanges))"

text \<open>The result is the existing file after the updates and the returned flag;
  \<open>now\<close> is \<^verbatim>\<open>Date.now()\<close>.\<close>

definition compareUpdateLibraryFile ::
  "bool \<Rightarrow> int \<Rightarrow> libraryFile \<Rightarrow> libraryFile \<Rightarrow> libraryFile \<times> bool" where
  "compareUpdateLibraryFile ignore now existingLibraryFile scannedLibraryFile =
     (let st0 = (if \<not> ignore \<and> lf_ino existingLibraryFile \<noteq> lf_ino scannedLibraryFile
                 then (lf_ino scannedLibraryFile, True)
                 else if ignore then (lf_ino scannedLibraryFile, False)
                 else (lf_ino existingLibraryFile, False));
          st1 = foldl (compareKey ignore (lf_metadata scannedLibraryFile))
                  (lf_metadata existingLibraryFile, snd st0) metadataKeys;
          updated = existingLibraryFile\<lparr>lf_ino := fst st0, lf_metadata := fst st1\<rparr>
      in (if snd st1 then updated\<lparr>lf_updatedAt := now\<rparr> else updated, snd st1))"

subsection \<open>checkLibraryItemData\<close>

datatype itemKey = K_ino | K_libraryFolderId | K_itemPath | K_itemRelPath | K_isFile

text \<open>\<^verbatim>\<open>keysToCompare\<close>: \<^verbatim>\<open>unshift('ino')\<close> puts the inode first, only when
  metadata changes are not ignored.\<close>

definition keysToCompare :: "bool \<Rightarrow> itemKey list" where
  "keysToCompare ignore =
     (if \<not> ignore then [K_ino] else []) @ [K_libraryFolderId, K_itemPath, K_itemRelPath, K_isFile]"

fun item_differs :: "itemKey \<Rightarrow> libraryItem \<Rightarrow> libraryItemScanData \<Rightarrow> bool" where
  "item_differs K_ino e s = (li_ino e \<noteq> sd_ino s)"
| "item_differs K_libraryFolderId e s = (li_libraryFolderId e \<noteq> sd_libraryFolderId s)"
| "item_differs K_itemPath e s = (li_path e \<noteq> sd_path s)"
| "item_differs K_itemRelPath e s = (li_relPath e \<noteq> sd_relPath s)"
| "item_differs K_isFile e s = (li_isFile e \<noteq> sd_isFile s)"

fun item_adopt :: "itemKey \<Rightarrow> libraryItemScanData \<Rightarrow> libraryItem \<Rightarrow> libraryItem" where
  "item_adopt K_ino s e = e\<lparr>li_ino := sd_ino s\<rparr>"
| "item_adopt K_libraryFolderId s e = e\<lparr>li_libraryFolderId := sd_libraryFolderId s\<rparr>"
| "item_adopt K_itemPath s e = e\<lparr>li_path := sd_path s\<rparr>"
| "item_adopt K_itemRelPath s e = e\<lparr>li_relPath := sd_relPath s\<rparr>"
| "item_adopt K_isFile s e = e\<lparr>li_isFile := sd_isFile s\<rparr>"

text \<open>The state of the item-level part: the existing item, \<^verbatim>\<open>this.hasChanges\<close> and
  \<^verbatim>\<open>this.hasPathChange\<close>.\<close>

record itemState =
  is_item :: libraryItem
  is_hasChanges :: bool
  is_hasPathChange :: bool

definition compareItemKey :: "libraryItemScanData \<Rightarrow> itemState \<Rightarrow> itemKey \<Rightarrow> itemState" where
  "compareItemKey s st key =
     (if item_differs key (is_item st) s then
        \<lparr>is_item = item_adopt key s (is_item st), is_hasChanges = True,
         is_hasPathChange = (if key = K_itemRelPath \<or> key = K_itemPath then True else is_hasPathChange st)\<rparr>
      else st)"

text \<open>The timestamps: compared and adopted one by one unless metadata changes are
  ignored, copied silently when they are.\<close>

definition checkTimestamps :: "bool \<Rightarrow> libraryItemScanData \<Rightarrow> itemState \<Rightarrow> itemState" where
  "checkTimestamps ignore s st =
     (if \<not> ignore then
        (let st1 = (if li_mtime (is_item st) \<noteq> sd_mtimeMs s
                    then st\<lparr>is_item := (is_item st)\<lparr>li_mtime := sd_mtimeMs s\<rparr>, is_hasChanges := True\<rparr>
                    else st);
             st2 = (if li_birthtime (is_item st1) \<noteq> sd_birthtimeMs s
                    then st1\<lparr>is_item := (is_item st1)\<lparr>li_birthtime := sd_birthtimeMs s\<rparr>, is_hasChanges := True\<rparr>
                    else st1)
         in (if li_ctime (is_item st2) \<noteq> sd_ctimeMs s
             then st2\<lparr>is_item := (is_item st2)\<lparr>li_ctime := sd_ctimeMs s\<rparr>, is_hasChanges := True\<rparr>
             else st2))
      else st\<lparr>is_item := (is_item st)\<lparr>li_mtime := sd_mtimeMs s, li_birthtime := sd_birthtimeMs s,
                                         li_ctime := sd_ctimeMs s\<rparr>\<rparr>)"

definition checkMissing :: "itemState \<Rightarrow> itemState" where
  "checkMissing st =
     (if li_isMissing (is_item st)
      then st\<lparr>is_item := (is_item st)\<lparr>li_isMissing := False\<rparr>, is_hasChanges := True\<rparr>
      else st)"

text \<open>The item-level part of the method, up to the recovery of a missing item.\<close>

definition itemPhase :: "bool \<Rightarrow> libraryItemScanData \<Rightarrow> libraryItem \<Rightarrow> itemState" where
  "itemPhase ignore this existingLibraryItem =
     checkMissing (checkTimestamps ignore this
       (foldl (compareItemKey this)
          \<lparr>is_item = existingLibraryItem, is_hasChanges = False, is_hasPathChange = False\<rparr>
          (keysToCompare ignore)))"

text \<open>
  The candidate files are JavaScript objects compared by reference
  (\<^verbatim>\<open>lf !== matchingLibraryFile\<close>); a candidate is therefore paired with its position
  in \<^verbatim>\<open>this.libraryFiles\<close>, which is its identity. The match of an existing file:
  the first candidate with the same \<^verbatim>\<open>metadata.path\<close>, and when there is none and
  metadata changes are not ignored, the first candidate with the same \<^verbatim>\<open>ino\<close>.
\<close>

definition findMatching ::
  "bool \<Rightarrow> (nat \<times> libraryFile) list \<Rightarrow> libraryFile \<Rightarrow> (nat \<times> libraryFile) option" where
  "findMatching ignore cands existingLibraryFile =
     (case find (\<lambda>c. md_path (lf_metadata (snd c)) = md_path (lf_metadata existingLibraryFile)) cands of
        Some m \<Rightarrow> Some m
      | None \<Rightarrow>
          if \<not> ignore then find (\<lambda>c. lf_ino (snd c) = lf_ino existingLibraryFile) cands
          else None)"

text \<open>
  The state of the loop over the existing files. \<open>fs_files\<close> is
  \<^verbatim>\<open>existingLibraryItem.libraryFiles\<close> as far as the loop has gone: the files kept,
  in the order of the original array (a removed file is filtered out, a matched one is
  updated in place).
\<close>

record filesState =
  fs_files :: "libraryFile list"
  fs_removed :: "libraryFile list"
  fs_modified :: "(libraryFile \<times> libraryFile) list"
  fs_added :: "(nat \<times> libraryFile) list"
  fs_hasChanges :: bool

definition fileStep ::
  "bool \<Rightarrow> int \<Rightarrow> (nat \<times> libraryFile) list \<Rightarrow> filesState \<Rightarrow> libraryFile \<Rightarrow> filesState" where
  "fileStep ignore now cands st existingLibraryFile =
     (case findMatching ignore cands existingLibraryFile of
        None \<Rightarrow> st\<lparr>fs_removed := fs_removed st @ [existingLibraryFile], fs_hasChanges := True\<rparr>
      | Some matchingLibraryFile \<Rightarrow>
          (let added = filter (\<lambda>c. c \<noteq> matchingLibraryFile) (fs_added st);
               r = compareUpdateLibraryFile ignore now existingLibraryFile (snd matchingLibraryFile)
           in if snd r
              then st\<lparr>fs_files := fs_files st @ [fst r],
                      fs_modified := fs_modified st @ [(existingLibraryFile, fst r)],
                      fs_added := added, fs_hasChanges := True\<rparr>
              else st\<lparr>fs_files := fs_files st @ [fst r], fs_added := added\<rparr>))"

text \<open>The loop starts with no file removed or modified, every candidate in
  \<^verbatim>\<open>libraryFilesAdded\<close>, and \<^verbatim>\<open>this.hasChanges\<close> as the item-level part left it.\<close>

definition filesLoop ::
  "bool \<Rightarrow> int \<Rightarrow> (nat \<times> libraryFile) list \<Rightarrow> bool \<Rightarrow> libraryFile list \<Rightarrow> filesState" where
  "filesLoop ignore now cands hasChanges0 existingFiles =
     foldl (fileStep ignore now cands)
       \<lparr>fs_files = [], fs_removed = [], fs_modified = [], fs_added = cands,
        fs_hasChanges = hasChanges0\<rparr>
       existingFiles"

text \<open>An added e-book file is flagged supplementary before it is pushed.\<close>

definition markSupplementary :: "libraryFile \<Rightarrow> libraryFile" where
  "markSupplementary libraryFile =
     (if lf_isEBookFile libraryFile then libraryFile\<lparr>lf_isSupplementary := True\<rparr> else libraryFile)"

text \<open>Modelled from the spec: \<^verbatim>\<open>LibraryFile.toJSON\<close> is not under src/; the plain
  object it returns has the fields of the record, unchanged.\<close>

definition toJSON :: "libraryFile \<Rightarrow> libraryFile" where
  "toJSON libraryFile = libraryFile"

text \<open>What a run leaves behind: the fields of \<^verbatim>\<open>this\<close> it sets, the existing item
  after its updates, and whether \<^verbatim>\<open>save()\<close> was called. The method returns
  \<open>hasChanges\<close>.\<close>

record checkResult =
  hasChanges :: bool
  hasPathChange :: bool
  libraryFilesRemoved :: "libraryFile list"
  libraryFilesModified :: "(libraryFile \<times> libraryFile) list"
  libraryFilesAdded :: "(nat \<times> libraryFile) list"
  existingItem :: libraryItem
  saved :: bool

definition checkLibraryItemData ::
  "bool \<Rightarrow> int \<Rightarrow> string \<Rightarrow> libraryItem \<Rightarrow> libraryItemScanData \<Rightarrow> checkResult" where
  "checkLibraryItemData ignore now version existingLibraryItem this =
     (let st3 = itemPhase ignore this existingLibraryItem;
          cands = enumerate 0 (sd_libraryFiles this);
          fs = filesLoop ignore now cands (is_hasChanges st3) (li_libraryFiles (is_item st3));
          added = map (\<lambda>c. (fst c, markSupplementary (snd c))) (fs_added fs);
          files = fs_files fs @ map (\<lambda>c. toJSON (snd c)) added;
          changed = (fs_hasChanges fs \<or> added \<noteq> []);
          item = (is_item st3)\<lparr>li_libraryFiles := files\<rparr>
      in \<lparr>hasChanges = changed,
          hasPathChange = is_hasPathChange st3,
          libraryFilesRemoved = fs_removed fs,
          libraryFilesModified = fs_modified fs,
          libraryFilesAdded = added,
          existingItem =
            (if changed
             then item\<lparr>li_size := sum_list (map (\<lambda>lf. md_size (lf_metadata lf)) files),
                       li_lastScan := Some now, li_lastScanVersion := Some version\<rparr>
             else item),
          saved = changed\<rparr>)"

subsection \<open>Inputs that differ in inode and timestamp fields only\<close>

text \<open>
  The fields every policy compares: for a file its path, relative path and size.
  \<open>differOnlyInInodeAndTimes\<close> says that the persisted item and the scan agree on
  every field but the inodes and the timestamps: the compared item fields are equal, the
  item is not flagged missing, and the two file lists agree position by position on the
  compared fields. The candidate paths are distinct, as the paths of one directory scan
  are.
\<close>

definition fileCore :: "libraryFile \<Rightarrow> string \<times> string \<times> nat" where
  "fileCore f = (md_path (lf_metadata f), md_relPath (lf_metadata f), md_size (lf_metadata f))"

definition differOnlyInInodeAndTimes :: "libraryItem \<Rightarrow> libraryItemScanData \<Rightarrow> bool" where
  "differOnlyInInodeAndTimes e s \<longleftrightarrow>
     li_libraryFolderId e = sd_libraryFolderId s \<and> li_path e = sd_path s \<and>
     li_relPath e = sd_relPath s \<and> li_isFile e = sd_isFile s \<and> \<not> li_isMissing e \<and>
     map fileCore (li_libraryFiles e) = map fileCore (sd_libraryFiles s) \<and>
     distinct (map (\<lambda>f. md_path (lf_metadata f)) (sd_libraryFiles s))"

subsection \<open>Worked inputs\<close>

text \<open>
  A file, a persisted item and a scan with the given inode, timestamp and files; the
  other fields are fixed. \<open>ex_bookItem\<close> and \<open>ex_bookScan\<close> are the spec's end-to-end
  scenario: one file \<^verbatim>\<open>/lib/book.m4b\<close> of 1000000 bytes, persisted with inode 7 and time
  100, scanned with no inode and time 200. \<open>ex_renameItem\<close> and \<open>ex_renameScan\<close> are
  the rename scenario: the persisted file \<^verbatim>\<open>/lib/a.mp3\<close> with inode 42 is found at
  \<^verbatim>\<open>/lib/b.mp3\<close>.
\<close>

definition ex_file :: "string \<Rightarrow> nat option \<Rightarrow> nat \<Rightarrow> int \<Rightarrow> libraryFile" where
  "ex_file p i sz t =
     \<lparr>lf_ino = i,
      lf_metadata = \<lparr>md_path = p, md_relPath = p, md_size = sz, md_mtimeMs = t, md_ctimeMs = t\<rparr>,
      lf_isSupplementary = False, lf_isEBookFile = False, lf_updatedAt = 0\<rparr>"

definition ex_item :: "nat option \<Rightarrow> int \<Rightarrow> libraryFile list \<Rightarrow> libraryItem" where
  "ex_item i t fs =
     \<lparr>li_ino = i, li_libraryFolderId = ''fol_1'', li_path = ''/lib'', li_relPath = ''lib'',
      li_isFile = False, li_mtime = Some t, li_ctime = Some t, li_birthtime = Some t,
      li_size = sum_list (map (\<lambda>lf. md_size (lf_metadata lf)) fs), li_libraryFiles = fs,
      li_isMissing = False, li_lastScan = None, li_lastScanVersion = None\<rparr>"

definition ex_scan :: "nat option \<Rightarrow> int \<Rightarrow> libraryFile list \<Rightarrow> libraryItemScanData" where
  "ex_scan i t fs =
     \<lparr>sd_ino = i, sd_libraryFolderId = ''fol_1'', sd_path = ''/lib'', sd_relPath = ''lib'',
      sd_isFile = False, sd_mtimeMs = Some t, sd_ctimeMs = Some t, sd_birthtimeMs = Some t,
      sd_libraryFiles = fs\<rparr>"

definition ex_bookItem :: libraryItem where
  "ex_bookItem = ex_item (Some 7) 100 [ex_file ''/lib/book.m4b'' (Some 7) 1000000 100]"

definition ex_bookScan :: libraryItemScanData where
  "ex_bookScan = ex_scan None 200 [ex_file ''/lib/book.m4b'' None 1000000 200]"

definition ex_fileA :: libraryFile where
  "ex_fileA = ex_file ''/lib/a.mp3'' (Some 42) 10 1"

definition ex_renameItem :: libraryItem where
  "ex_renameItem = ex_item (Some 7) 100 [ex_fileA]"

definition ex_renameScan :: libraryItemScanData where
  "ex_renameScan = ex_scan (Some 7) 100 [ex_file ''/lib/b.mp3'' (Some 42) 10 1]"

section \<open>The prober: server/utils/prober.js\<close>

text \<open>
  The file holds three modules one after the other: a prober with a cache, a retry and a
  timeout wrapper (\<^verbatim>\<open>withTimeout\<close>, \<^verbatim>\<open>withRetry\<close>, \<^verbatim>\<open>probeMinimal\<close>,
  \<^verbatim>\<open>probeFull\<close>, \<^verbatim>\<open>probe\<close>), a prober that probes a head slice of the file
  (\<^verbatim>\<open>readPartialFile\<close>, \<^verbatim>\<open>cleanupTempFile\<close>, \<^verbatim>\<open>runFFProbe\<close>,
  \<^verbatim>\<open>parseProbeData\<close>, \<^verbatim>\<open>probe\<close>), and the process wrapper \<^verbatim>\<open>doProbe\<close>.
  An \<^verbatim>\<open>async\<close> function is modelled by what awaiting it gives: \<open>Inr\<close> the value
  it resolves with, \<open>Inl\<close> the value it rejects with (what \<^verbatim>\<open>await\<close> throws).
\<close>

subsection \<open>Thrown values and numbers in text\<close>

text \<open>
  What the code throws is an \<^verbatim>\<open>Error\<close> with a message, or, in \<^verbatim>\<open>withRetry\<close>,
  the never assigned \<^verbatim>\<open>lastError\<close>, which is \<^verbatim>\<open>undefined\<close>.
\<close>

datatype thrown = Err string | ThrownUndefined

text \<open>\<^verbatim>\<open>error.message\<close>: reading a property of \<^verbatim>\<open>undefined\<close> throws a TypeError.\<close>

definition message :: "thrown \<Rightarrow> thrown + string" where
  "message error =
     (case error of
        Err m \<Rightarrow> Inr m
      | ThrownUndefined \<Rightarrow>
          Inl (Err ''Cannot read properties of undefined (reading 'message')''))"

text \<open>A number in a template string or under \<^verbatim>\<open>toString()\<close>: its decimal digits.\<close>

fun showNat :: "nat \<Rightarrow> string" where
  "showNat n = (if n < 10 then [''0123456789'' ! n] else showNat (n div 10) @ [''0123456789'' ! (n mod 10)])"

definition showInt :: "int \<Rightarrow> string" where
  "showInt i = (if i < 0 then ''-'' @ showNat (nat (- i)) else showNat (nat i))"

subsection \<open>JavaScript values of the tool's output\<close>

text \<open>
  A scalar of the parsed JSON, \<^verbatim>\<open>null\<close>, or what reading an absent property gives
  (\<^verbatim>\<open>undefined\<close>); \<open>JNaN\<close> is the number NaN. Numbers are integers: the tool
  writes its fractional quantities (durations, start and end times) as strings.
\<close>

datatype jsval = JUndefined | JNull | JStr string | JNum int | JNaN

text \<open>Truthiness, and \<^verbatim>\<open>a || b\<close> on values.\<close>

definition truthy :: "jsval \<Rightarrow> bool" where
  "truthy v =
     (case v of
        JUndefined \<Rightarrow> False | JNull \<Rightarrow> False | JStr s \<Rightarrow> s \<noteq> [] | JNum n \<Rightarrow> n \<noteq> 0
      | JNaN \<Rightarrow> False)"

definition js_or :: "jsval \<Rightarrow> jsval \<Rightarrow> jsval" where
  "js_or a b = (if truthy a then a else b)"

text \<open>
  \<^verbatim>\<open>parseInt\<close> with no radix, on the text of its argument: leading white space is
  skipped, then a sign, then \<^verbatim>\<open>0x\<close> selects radix 16, and the longest run of digits
  of the radix is read; no digit gives NaN. (White space is the ASCII white space, and
  the integer read is exact; JavaScript rounds beyond 2^53.)
\<close>

definition isWhiteSpace :: "char \<Rightarrow> bool" where
  "isWhiteSpace c \<longleftrightarrow> (of_char c :: nat) \<in> {9, 10, 11, 12, 13, 32}"

definition digitValue :: "char \<Rightarrow> nat option" where
  "digitValue c =
     (let n = (of_char c :: nat) in
      if 48 \<le> n \<and> n \<le> 57 then Some (n - 48)
      else if 97 \<le> n \<and> n \<le> 122 then Some (n - 87)
      else if 65 \<le> n \<and> n \<le> 90 then Some (n - 55)
      else None)"

fun parseDigits :: "nat \<Rightarrow> string \<Rightarrow> nat option \<Rightarrow> nat option" where
  "parseDigits R [] acc = acc"
| "parseDigits R (c # cs) acc =
     (case digitValue c of
        None \<Rightarrow> acc
      | Some d \<Rightarrow>
          if d < R then parseDigits R cs (Some (R * (case acc of None \<Rightarrow> 0 | Some a \<Rightarrow> a) + d))
          else acc)"

definition parseIntString :: "string \<Rightarrow> jsval" where
  "parseIntString s =
     (let s1 = dropWhile isWhiteSpace s;
          neg = (take 1 s1 = ''-'');
          s2 = (if take 1 s1 = ''-'' \<or> take 1 s1 = ''+'' then drop 1 s1 else s1);
          hex = (take 2 s2 = ''0x'' \<or> take 2 s2 = ''0X'');
          digits = (if hex then parseDigits 16 (drop 2 s2) None else parseDigits 10 s2 None)
      in case digits of
           None \<Rightarrow> JNaN
         | Some n \<Rightarrow> JNum (if neg then - int n else int n))"

definition parseInt :: "jsval \<Rightarrow> jsval" where
  "parseInt v =
     (case v of
        JUndefined \<Rightarrow> JNaN
      | JNull \<Rightarrow> JNaN
      | JStr s \<Rightarrow> parseIntString s
      | JNum n \<Rightarrow> parseIntString (showInt n)
      | JNaN \<Rightarrow> JNaN)"

text \<open>\<^verbatim>\<open>parseFloat(x) || 0\<close> is a floating point number; it is kept as the
  expression it is, over the value read.\<close>

datatype jsfloat = ParseFloatOrZero jsval

subsection \<open>The parsed output of the tool\<close>

text \<open>
  Modelled from the spec: the JSON schema of the tool's output is not repository code;
  the records hold the properties the prober reads. \<open>rs_language\<close> is
  \<^verbatim>\<open>stream.tags?.language\<close> and \<open>rc_title\<close> is \<^verbatim>\<open>chapter.tags?.title\<close>. The
  tags object is the list of its entries.
\<close>

record rawStream =
  rs_codec_type :: jsval
  rs_codec_name :: jsval
  rs_sample_rate :: jsval
  rs_channels :: jsval
  rs_channel_layout :: jsval
  rs_bit_rate :: jsval
  rs_time_base :: jsval
  rs_language :: jsval

record rawFormat =
  rf_format_name :: jsval
  rf_duration :: jsval
  rf_size :: jsval
  rf_bit_rate :: jsval
  rf_tags :: "(string \<times> string) list option"

record rawChapter =
  rc_start_time :: jsval
  rc_end_time :: jsval
  rc_title :: jsval

record rawProbe =
  rp_format :: "rawFormat option"
  rp_streams :: "rawStream list option"
  rp_chapters :: "rawChapter list option"

text \<open>\<^verbatim>\<open>data.format || {}\<close>: the empty object reads \<^verbatim>\<open>undefined\<close> everywhere.\<close>

definition emptyFormat :: rawFormat where
  "emptyFormat = \<lparr>rf_format_name = JUndefined, rf_duration = JUndefined, rf_size = JUndefined,
                   rf_bit_rate = JUndefined, rf_tags = None\<rparr>"

subsection \<open>The normalised result\<close>

text \<open>
  What \<^verbatim>\<open>transformMinimalData\<close>, \<^verbatim>\<open>transformFullData\<close> and
  \<^verbatim>\<open>parseProbeData\<close> return. A property that one of them does not set reads
  \<^verbatim>\<open>undefined\<close>. The tag tables are kept as the call that builds them: no claim
  reads a tag.
\<close>

record audioInfo =
  ai_codec :: jsval
  ai_sample_rate :: jsval
  ai_channels :: jsval
  ai_channel_layout :: jsval
  ai_bit_rate :: jsval
  ai_time_base :: jsval
  ai_language :: jsval

record videoInfo =
  vi_codec :: jsval

record chapterInfo =
  ch_id :: nat
  ch_start :: jsfloat
  ch_end :: jsfloat
  ch_title :: jsval

datatype tagsInfo =
    EmptyTags
  | TransformTags "(string \<times> string) list"
  | ParseTags "(string \<times> string) list"

record probeResult =
  res_format :: jsval
  res_duration :: jsfloat
  res_size :: jsval
  res_bit_rate :: jsval
  res_audio_stream :: "audioInfo option"
  res_video_stream :: "videoInfo option"
  res_chapters :: "chapterInfo list"
  res_tags :: tagsInfo

subsection \<open>transformChapters, transformMinimalData, transformFullData\<close>

definition transformChapters :: "rawChapter list \<Rightarrow> chapterInfo list" where
  "transformChapters chapters =
     map (\<lambda>p. \<lparr>ch_id = fst p,
                ch_start = ParseFloatOrZero (rc_start_time (snd p)),
                ch_end = ParseFloatOrZero (rc_end_time (snd p)),
                ch_title = js_or (rc_title (snd p)) (JStr (''Chapter '' @ showNat (fst p + 1)))\<rparr>)
         (enumerate 0 chapters)"

definition findStream :: "string \<Rightarrow> rawStream list \<Rightarrow> rawStream option" where
  "findStream kind streams = find (\<lambda>s. rs_codec_type s = JStr kind) streams"

text \<open>The output has at least one stream of the kind.\<close>

definition hasStream :: "string \<Rightarrow> rawProbe \<Rightarrow> bool" where
  "hasStream kind data \<longleftrightarrow>
     (\<exists>s\<in>set (case rp_streams data of Some ss \<Rightarrow> ss | None \<Rightarrow> []). rs_codec_type s = JStr kind)"

definition transformMinimalData :: "rawProbe \<Rightarrow> probeResult" where
  "transformMinimalData data =
     (let format = (case rp_format data of Some f \<Rightarrow> f | None \<Rightarrow> emptyFormat);
          streams = (case rp_streams data of Some ss \<Rightarrow> ss | None \<Rightarrow> []);
          audioStream = findStream ''audio'' streams;
          videoStream = findStream ''video'' streams
      in \<lparr>res_format = rf_format_name format,
          res_duration = ParseFloatOrZero (rf_duration format),
          res_size = js_or (parseInt (rf_size format)) (JNum 0),
          res_bit_rate = js_or (parseInt (rf_bit_rate format))
                           (case audioStream of Some a \<Rightarrow> parseInt (rs_bit_rate a) | None \<Rightarrow> JNum 0),
          res_audio_stream =
            (case audioStream of
               Some a \<Rightarrow>
                 Some \<lparr>ai_codec = rs_codec_name a,
                       ai_sample_rate = js_or (parseInt (rs_sample_rate a)) (JNum 0),
                       ai_channels = js_or (parseInt (rs_channels a)) (JNum 0),
                       ai_channel_layout = JUndefined,
                       ai_bit_rate = js_or (parseInt (rs_bit_rate a)) (JNum 0),
                       ai_time_base = rs_time_base a,
                       ai_language = JUndefined\<rparr>
             | None \<Rightarrow> None),
          res_video_stream =
            (case videoStream of Some v \<Rightarrow> Some \<lparr>vi_codec = rs_codec_name v\<rparr> | None \<Rightarrow> None),
          res_chapters = transformChapters (case rp_chapters data of Some cs \<Rightarrow> cs | None \<Rightarrow> []),
          res_tags = EmptyTags\<rparr>)"

definition transformFullData :: "rawProbe \<Rightarrow> probeResult" where
  "transformFullData data =
     (let format = (case rp_format data of Some f \<Rightarrow> f | None \<Rightarrow> emptyFormat);
          streams = (case rp_streams data of Some ss \<Rightarrow> ss | None \<Rightarrow> []);
          audioStream = findStream ''audio'' streams;
          videoStream = findStream ''video'' streams
      in \<lparr>res_format = rf_format_name format,
          res_duration = ParseFloatOrZero (rf_duration format),
          res_size = js_or (parseInt (rf_size format)) (JNum 0),
          res_bit_rate = js_or (parseInt (rf_bit_rate format))
                           (case audioStream of Some a \<Rightarrow> parseInt (rs_bit_rate a) | None \<Rightarrow> JNum 0),
          res_audio_stream =
            (case audioStream of
               Some a \<Rightarrow>
                 Some \<lparr>ai_codec = rs_codec_name a,
                       ai_sample_rate = js_or (parseInt (rs_sample_rate a)) (JNum 0),
                       ai_channels = js_or (parseInt (rs_channels a)) (JNum 0),
                       ai_channel_layout = rs_channel_layout a,
                       ai_bit_rate = js_or (parseInt (rs_bit_rate a)) (JNum 0),
                       ai_time_base = rs_time_base a,
                       ai_language = rs_language a\<rparr>
             | None \<Rightarrow> None),
          res_video_stream =
            (case videoStream of Some v \<Rightarrow> Some \<lparr>vi_codec = rs_codec_name v\<rparr> | None \<Rightarrow> None),
          res_chapters = transformChapters (case rp_chapters data of Some cs \<Rightarrow> cs | None \<Rightarrow> []),
          res_tags = TransformTags (case rf_tags format of Some ts \<Rightarrow> ts | None \<Rightarrow> [])\<rparr>)"

subsection \<open>parseChapters and parseProbeData\<close>

text \<open>
  \<^verbatim>\<open>parseProbeData\<close> throws on output without a format section and on output without
  an audio stream. \<open>skipMetadata\<close> is \<^verbatim>\<open>scanConfig.shouldSkipMetadata()\<close>. The
  argument is \<open>None\<close> for a parsed \<^verbatim>\<open>null\<close>.
\<close>

definition parseChapters :: "rawChapter list option \<Rightarrow> chapterInfo list" where
  "parseChapters chapters =
     (case chapters of
        None \<Rightarrow> []
      | Some cs \<Rightarrow> if cs = [] then [] else transformChapters cs)"

definition parseProbeData :: "bool \<Rightarrow> rawProbe option \<Rightarrow> thrown + probeResult" where
  "parseProbeData skipMetadata rawData =
     (case rawData of
        None \<Rightarrow> Inl (Err ''Invalid ffprobe output'')
      | Some raw \<Rightarrow>
          (case rp_format raw of
             None \<Rightarrow> Inl (Err ''Invalid ffprobe output'')
           | Some format \<Rightarrow>
               (let audioStream = (case rp_streams raw of Some ss \<Rightarrow> findStream ''audio'' ss | None \<Rightarrow> None);
                    videoStream = (case rp_streams raw of Some ss \<Rightarrow> findStream ''video'' ss | None \<Rightarrow> None)
                in case audioStream of
                     None \<Rightarrow> Inl (Err ''No audio stream found'')
                   | Some a \<Rightarrow>
                       Inr \<lparr>res_format = rf_format_name format,
                            res_duration = ParseFloatOrZero (rf_duration format),
                            res_size = js_or (parseInt (rf_size format)) (JNum 0),
                            res_bit_rate = js_or (parseInt (rf_bit_rate format)) (JNum 0),
                            res_audio_stream =
                              Some \<lparr>ai_codec = rs_codec_name a,
                                    ai_sample_rate = rs_sample_rate a,
                                    ai_channels = rs_channels a,
                                    ai_channel_layout = rs_channel_layout a,
                                    ai_bit_rate = js_or (parseInt (rs_bit_rate a)) (JNum 0),
                                    ai_time_base = rs_time_base a,
                                    ai_language = rs_language a\<rparr>,
                            res_video_stream =
                              (case videoStream of
                                 Some v \<Rightarrow> Some \<lparr>vi_codec = rs_codec_name v\<rparr>
                               | None \<Rightarrow> None),
                            res_chapters = parseChapters (rp_chapters raw),
                            res_tags =
                              (if skipMetadata then EmptyTags
                               else case rf_tags format of
                                      None \<Rightarrow> EmptyTags
                                    | Some ts \<Rightarrow> ParseTags ts)\<rparr>)))"

text \<open>Worked outputs of the tool: a stream of a kind with a bit rate, a format section
  with a bit rate, and the output made of them.\<close>

definition ex_stream :: "string \<Rightarrow> jsval \<Rightarrow> rawStream" where
  "ex_stream kind rate =
     \<lparr>rs_codec_type = JStr kind, rs_codec_name = JStr ''aac'', rs_sample_rate = JStr ''44100'',
      rs_channels = JNum 2, rs_channel_layout = JStr ''stereo'', rs_bit_rate = rate,
      rs_time_base = JStr ''1/44100'', rs_language = JUndefined\<rparr>"

definition ex_raw :: "jsval \<Rightarrow> rawStream list \<Rightarrow> rawProbe" where
  "ex_raw rate streams =
     \<lparr>rp_format = Some \<lparr>rf_format_name = JStr ''mov,mp4,m4a'', rf_duration = JStr ''12.5'',
                         rf_size = JStr ''1000000'', rf_bit_rate = rate, rf_tags = None\<rparr>,
      rp_streams = Some streams, rp_chapters = None\<rparr>"

subsection \<open>withTimeout and withRetry\<close>

text \<open>
  \<^verbatim>\<open>withTimeout\<close> races the promise against a timer. Which of the two settles first
  is a matter of real time; here it is the argument \<open>timerFirst\<close>.
\<close>

definition withTimeout :: "thrown + 'a \<Rightarrow> bool \<Rightarrow> thrown + 'a" where
  "withTimeout promise timerFirst = (if timerFirst then Inl (Err ''Probe timeout'') else promise)"

text \<open>
  \<^verbatim>\<open>withRetry(fn, times = 3)\<close>. The thunk \<^verbatim>\<open>fn\<close> is called once per round of the
  loop; \<open>fn i\<close> is what awaiting its call in round \<open>i\<close> (from 0) gives. The loop state
  is the counter \<open>i\<close>, \<^verbatim>\<open>lastError\<close>, and the delays slept so far in milliseconds
  (\<^verbatim>\<open>1000 * (i + 1)\<close> after a failed round that is not the last). After a failed
  round that is not the last the catch block writes a log line with
  \<^verbatim>\<open>error.message\<close>; when that read throws (the round rejected with
  \<^verbatim>\<open>undefined\<close>) the TypeError leaves the loop and is what the call rejects with.
  The parameter \<^verbatim>\<open>times\<close> is a JavaScript number, here the integer \<open>ntimes\<close>.
\<close>

function withRetry_loop ::
  "(nat \<Rightarrow> thrown + 'a) \<Rightarrow> int \<Rightarrow> nat \<Rightarrow> thrown \<Rightarrow> nat list \<Rightarrow> (thrown + 'a) \<times> nat list" where
  "withRetry_loop fn ntimes i lastError delays =
     (if int i < ntimes then
        (case fn i of
           Inr v \<Rightarrow> (Inr v, delays)
         | Inl error \<Rightarrow>
             if int i < ntimes - 1 then
               (case message error of
                  Inl typeError \<Rightarrow> (Inl typeError, delays)
                | Inr m \<Rightarrow> withRetry_loop fn ntimes (Suc i) error (delays @ [1000 * (i + 1)]))
             else withRetry_loop fn ntimes (Suc i) error delays)
      else (Inl lastError, delays))"
  by pat_completeness auto
termination
  by (relation "measure (\<lambda>(fn, ntimes, i, lastError, delays). nat (ntimes - int i))") auto

declare withRetry_loop.simps [simp del]

text \<open>The default of the parameter applies when the argument is \<^verbatim>\<open>undefined\<close>
  (\<open>None\<close>).\<close>

definition withRetry :: "(nat \<Rightarrow> thrown + 'a) \<Rightarrow> int option \<Rightarrow> (thrown + 'a) \<times> nat list" where
  "withRetry fn ntimes =
     withRetry_loop fn (case ntimes of None \<Rightarrow> 3 | Some t \<Rightarrow> t) 0 ThrownUndefined []"

subsection \<open>doProbe\<close>

text \<open>
  The options of \<^verbatim>\<open>doProbe(file, options = null)\<close>: an array of arguments, an options
  object, or nothing.
\<close>

record ffprobeOptions =
  po_customArgs :: "string list option"
  po_analyzeduration :: "int option"
  po_probesize :: "int option"
  po_skipChapters :: bool

datatype probeOptions = ArgsArray "string list" | OptionsObject ffprobeOptions | NoOptions

definition buildArgs :: "probeOptions \<Rightarrow> string \<Rightarrow> string list" where
  "buildArgs options file =
     (case options of
        ArgsArray args \<Rightarrow> args
      | OptionsObject opts \<Rightarrow>
          (case po_customArgs opts of
             Some customArgs \<Rightarrow> customArgs
           | None \<Rightarrow>
               (case po_analyzeduration opts of
                  Some d \<Rightarrow> [''-analyzeduration'', showInt d] | None \<Rightarrow> []) @
               (case po_probesize opts of
                  Some p \<Rightarrow> [''-probesize'', showInt p] | None \<Rightarrow> []) @
               [''-hide_banner'', ''-loglevel'', ''fatal'', ''-show_error'', ''-show_format'',
                ''-show_streams'', ''-show_programs'', ''-show_private_data'',
                ''-print_format'', ''json''] @
               (if \<not> po_skipChapters opts then [''-show_chapters''] else []))
      | NoOptions \<Rightarrow>
          [''-hide_banner'', ''-loglevel'', ''fatal'', ''-show_error'', ''-show_format'',
           ''-show_streams'', ''-show_programs'', ''-show_chapters'', ''-show_private_data'',
           ''-print_format'', ''json'']) @ [file]"

text \<open>
  One run of the child process, as the handlers see it: the \<^verbatim>\<open>'error'\<close> event when
  the process could not be spawned, the code of the \<^verbatim>\<open>'exit'\<close> event
  (\<^verbatim>\<open>null\<close>, here \<open>None\<close>, when a signal ended the process), and the chunks
  received on stdout and stderr.
\<close>

record processRun =
  pr_error :: "string option"
  pr_exitCode :: "int option"
  pr_stdout :: "string list"
  pr_stderr :: "string list"

text \<open>
  The \<^verbatim>\<open>'close'\<close> handler. \<^verbatim>\<open>JSON.parse\<close> is the argument \<open>jsonParse\<close>:
  \<open>Inr\<close> the parsed value, \<open>Inl\<close> the message of the SyntaxError it throws.
\<close>

definition onClose :: "(string \<Rightarrow> string + 'j) \<Rightarrow> processRun \<Rightarrow> thrown + 'j" where
  "onClose jsonParse run =
     (if pr_exitCode run \<noteq> Some 0 \<and> pr_stderr run \<noteq> [] then
        Inl (Err (''ffprobe exited with code '' @
                  (case pr_exitCode run of None \<Rightarrow> ''null'' | Some c \<Rightarrow> showInt c) @
                  '': '' @ concat (pr_stderr run)))
      else
        (case jsonParse (concat (pr_stdout run)) of
           Inr result \<Rightarrow> Inr result
         | Inl m \<Rightarrow> Inl (Err (''Failed to parse ffprobe output: '' @ m))))"

text \<open>
  \<open>spawn\<close> is the operating system: the run that the command
  (\<^verbatim>\<open>module.exports.FFPROBE_PATH || 'ffprobe'\<close>) and its arguments give.
  The promise settles once: an \<^verbatim>\<open>'error'\<close> event rejects it before
  \<^verbatim>\<open>'close'\<close> is handled.
\<close>

definition ffprobeCommand :: "string option \<Rightarrow> string" where
  "ffprobeCommand FFPROBE_PATH =
     (case FFPROBE_PATH of Some p \<Rightarrow> if p = [] then ''ffprobe'' else p | None \<Rightarrow> ''ffprobe'')"

definition doProbe ::
  "(string \<Rightarrow> string list \<Rightarrow> processRun) \<Rightarrow> (string \<Rightarrow> string + 'j) \<Rightarrow> string option \<Rightarrow>
     string \<Rightarrow> probeOptions \<Rightarrow> thrown + 'j" where
  "doProbe spawn jsonParse FFPROBE_PATH file options =
     (let run = spawn (ffprobeCommand FFPROBE_PATH) (buildArgs options file)
      in case pr_error run of
           Some err \<Rightarrow> Inl (Err err)
         | None \<Rightarrow> onClose jsonParse run)"

text \<open>A run that exits with code 1 and writes a JSON object to stdout and nothing to
  stderr, and a parser that accepts the text \<^verbatim>\<open>{}\<close> alone.\<close>

definition ex_run :: processRun where
  "ex_run = \<lparr>pr_error = None, pr_exitCode = Some 1, pr_stdout = [''{'', ''}''], pr_stderr = []\<rparr>"

definition ex_jsonParse :: "string \<Rightarrow> string + (string \<times> string) list" where
  "ex_jsonParse s = (if s = ''{}'' then Inr [] else Inl ''Unexpected end of JSON input'')"

section \<open>The probe cache and its configuration\<close>

subsection \<open>scanConfig\<close>

text \<open>
  The configuration module that the cache and the prober require
  (\<^verbatim>\<open>../scanner/scanConfig\<close>, the last module of LibraryItemScanData.js), after it
  has been loaded: the values read from the environment, with the adjustments the module
  makes for its scan mode. \<^verbatim>\<open>USE_PARTIAL_READ\<close>, \<^verbatim>\<open>PARTIAL_READ_SIZE\<close>,
  \<^verbatim>\<open>FFPROBE_ANALYZE_DURATION\<close> and \<^verbatim>\<open>FFPROBE_PROBE_SIZE\<close> are read by the prober
  and set by no module under src/: they are \<open>None\<close> when undefined.
\<close>

record scanConfig =
  cfg_SCAN_MODE :: string
  cfg_SKIP_METADATA_TAGS :: bool
  cfg_ENABLE_PROBE_CACHE :: bool
  cfg_USE_MINIMAL_PROBE :: bool
  cfg_PROBE_CACHE_TTL :: int
  cfg_PROBE_CACHE_SIZE :: int
  cfg_PROBE_TIMEOUT :: int
  cfg_PROBE_RETRY_TIMES :: int
  cfg_USE_PARTIAL_READ :: "bool option"
  cfg_PARTIAL_READ_SIZE :: "nat option"
  cfg_FFPROBE_ANALYZE_DURATION :: "string option"
  cfg_FFPROBE_PROBE_SIZE :: "string option"

definition shouldSkipMetadata :: "scanConfig \<Rightarrow> bool" where
  "shouldSkipMetadata cfg \<longleftrightarrow> cfg_SKIP_METADATA_TAGS cfg \<or> cfg_SCAN_MODE cfg = ''fast''"

definition shouldUseCache :: "scanConfig \<Rightarrow> bool" where
  "shouldUseCache cfg \<longleftrightarrow> cfg_ENABLE_PROBE_CACHE cfg"

definition shouldUseMinimalProbe :: "scanConfig \<Rightarrow> bool" where
  "shouldUseMinimalProbe cfg \<longleftrightarrow> cfg_USE_MINIMAL_PROBE cfg \<or> cfg_SCAN_MODE cfg = ''fast''"

text \<open>
  How the module computes the retry count,
  \<^verbatim>\<open>PROBE_RETRY_TIMES: parseInt(process.env.PROBE_RETRY_TIMES) || 3\<close>, from the
  environment variable: a text, or \<^verbatim>\<open>undefined\<close> when the variable is not set.
\<close>

definition PROBE_RETRY_TIMES :: "jsval \<Rightarrow> jsval" where
  "PROBE_RETRY_TIMES envVar = js_or (parseInt envVar) (JNum 3)"

subsection \<open>The outside world\<close>

text \<open>
  The file system is a map from a path to the content of the file there. What the
  code cannot decide is an argument: \<open>environment\<close> holds the library functions
  (\<^verbatim>\<open>JSON.parse\<close>, the SHA-256 digest in hexadecimal), the clock, and the outcome of
  every operation that can fail for reasons outside the program.
\<close>

type_synonym files = "string \<Rightarrow> string option"

datatype execOutcome = ExecFailed string | ExecStdout string

datatype copyOutcome = CopyDone | CopyFailed string "string option"

record environment =
  e_jsonParse :: "string \<Rightarrow> string + rawProbe option"
  e_sha256hex :: "string \<Rightarrow> string"
  e_timeAtGet :: nat
  e_timeAtSet :: nat
  e_now :: nat
  e_exec :: "nat \<Rightarrow> string \<Rightarrow> execOutcome"
  e_timerFirst :: bool
  e_execFile :: "string \<Rightarrow> string list \<Rightarrow> execOutcome"
  e_copy :: copyOutcome
  e_unlinkError :: "string option"

text \<open>
  \<^item> \<open>e_jsonParse\<close>: \<open>Inr (Some raw)\<close> for an object, \<open>Inr None\<close> for \<^verbatim>\<open>null\<close>,
    \<open>Inl\<close> the message of the SyntaxError.
  \<^item> \<open>e_timeAtGet\<close>, \<open>e_timeAtSet\<close>: the cache's clock, in milliseconds, when the probe
    looks an entry up and when it stores one; \<open>e_now\<close>: \<^verbatim>\<open>Date.now()\<close>.
  \<^item> \<open>e_exec i cmd\<close>: what \<^verbatim>\<open>execPromise(cmd)\<close> gives in the round \<open>i\<close> of the retry
    loop; \<open>e_execFile path args\<close>: what \<^verbatim>\<open>execFilePromise(path, args)\<close> gives (a
    failure is a nonzero exit, the timeout of the call, or a full buffer).
  \<^item> \<open>e_timerFirst\<close>: the timer of \<^verbatim>\<open>withTimeout\<close> fires before the probe settles.
  \<^item> \<open>e_copy\<close>: the outcome of piping the head of the file into the temporary file: done,
    or failed with a message, leaving the given partial content behind (\<open>None\<close>: the
    temporary file was not created).
  \<^item> \<open>e_unlinkError\<close>: a reason for \<^verbatim>\<open>fs.unlink\<close> to fail on a file that exists.
\<close>

subsection \<open>The LRU store\<close>

text \<open>
  Modelled from the spec: the package lru-cache is not under src/. The store holds at
  most \<open>maxEntries\<close> entries; an entry records when it was last touched; storing evicts the
  least recently touched entries beyond the capacity; a lookup refreshes the recency and
  the age of the entry it finds (\<^verbatim>\<open>updateAgeOnGet\<close>); an entry older than the time to
  live is absent and is dropped by the lookup that meets it. The list is ordered from
  the most recently touched entry to the least.
\<close>

record 'v lruEntry =
  le_key :: string
  le_value :: 'v
  le_touched :: nat

definition lru_get :: "nat \<Rightarrow> nat \<Rightarrow> string \<Rightarrow> 'v lruEntry list \<Rightarrow> 'v option \<times> 'v lruEntry list" where
  "lru_get ttl now key entries =
     (case find (\<lambda>e. le_key e = key) entries of
        None \<Rightarrow> (None, entries)
      | Some e \<Rightarrow>
          if ttl < now - le_touched e then (None, filter (\<lambda>x. le_key x \<noteq> key) entries)
          else (Some (le_value e),
                e\<lparr>le_touched := now\<rparr> # filter (\<lambda>x. le_key x \<noteq> key) entries))"

definition lru_set :: "nat \<Rightarrow> nat \<Rightarrow> string \<Rightarrow> 'v \<Rightarrow> 'v lruEntry list \<Rightarrow> 'v lruEntry list" where
  "lru_set maxEntries now key v entries =
     take maxEntries (\<lparr>le_key = key, le_value = v, le_touched = now\<rparr> # filter (\<lambda>x. le_key x \<noteq> key) entries)"

subsection \<open>ProbeCache\<close>

text \<open>
  The class of the unnamed source file (the module \<^verbatim>\<open>../scanner/ProbeCache\<close>):
  \<^verbatim>\<open>this.cache\<close> and \<^verbatim>\<open>this.stats\<close>. The methods return their value and the
  cache after the call.
\<close>

record 'v probeCache =
  pc_cache :: "'v lruEntry list"
  pc_hits :: nat
  pc_misses :: nat
  pc_errors :: nat

definition getFileSize :: "files \<Rightarrow> string \<Rightarrow> nat" where
  "getFileSize fs filePath = (case fs filePath of Some content \<Rightarrow> length content | None \<Rightarrow> 0)"

text \<open>\<^verbatim>\<open>getFileHash\<close>: the first 32 hexadecimal digits of the digest of the first
  megabyte; a file that cannot be opened counts an error and gives \<^verbatim>\<open>null\<close>.\<close>

definition getFileHash ::
  "environment \<Rightarrow> files \<Rightarrow> 'v probeCache \<Rightarrow> string \<Rightarrow> string option \<times> 'v probeCache" where
  "getFileHash env fs c filePath =
     (case fs filePath of
        None \<Rightarrow> (None, c\<lparr>pc_errors := pc_errors c + 1\<rparr>)
      | Some content \<Rightarrow>
          (Some (take 32 (e_sha256hex env (take (min (1024 * 1024) (getFileSize fs filePath)) content))), c))"

definition getCacheKey ::
  "environment \<Rightarrow> files \<Rightarrow> 'v probeCache \<Rightarrow> string \<Rightarrow> nat \<Rightarrow> string option \<times> 'v probeCache" where
  "getCacheKey env fs c filePath fileSize =
     (case getFileHash env fs c filePath of
        (None, c') \<Rightarrow> (None, c')
      | (Some h, c') \<Rightarrow> if h = [] then (None, c') else (Some (h @ ''_'' @ showNat fileSize), c'))"

text \<open>\<^verbatim>\<open>get\<close> and \<^verbatim>\<open>set\<close>. The time to live is \<^verbatim>\<open>PROBE_CACHE_TTL * 1000\<close>
  milliseconds, the capacity \<^verbatim>\<open>PROBE_CACHE_SIZE\<close>.\<close>

definition ProbeCache_get ::
  "scanConfig \<Rightarrow> environment \<Rightarrow> files \<Rightarrow> 'v probeCache \<Rightarrow> string \<Rightarrow> 'v option \<times> 'v probeCache" where
  "ProbeCache_get cfg env fs c filePath =
     (if \<not> shouldUseCache cfg then (None, c)
      else
        (case getCacheKey env fs c filePath (getFileSize fs filePath) of
           (None, c1) \<Rightarrow> (None, c1)
         | (Some cacheKey, c1) \<Rightarrow>
             (case lru_get (nat (cfg_PROBE_CACHE_TTL cfg * 1000)) (e_timeAtGet env) cacheKey (pc_cache c1) of
                (Some cached, entries) \<Rightarrow> (Some cached, c1\<lparr>pc_cache := entries, pc_hits := pc_hits c1 + 1\<rparr>)
              | (None, entries) \<Rightarrow> (None, c1\<lparr>pc_cache := entries, pc_misses := pc_misses c1 + 1\<rparr>))))"

definition ProbeCache_set ::
  "scanConfig \<Rightarrow> environment \<Rightarrow> files \<Rightarrow> 'v probeCache \<Rightarrow> string \<Rightarrow> 'v \<Rightarrow> bool \<times> 'v probeCache" where
  "ProbeCache_set cfg env fs c filePath probeData =
     (if \<not> shouldUseCache cfg then (False, c)
      else
        (case getCacheKey env fs c filePath (getFileSize fs filePath) of
           (None, c1) \<Rightarrow> (False, c1)
         | (Some cacheKey, c1) \<Rightarrow>
             (True, c1\<lparr>pc_cache := lru_set (nat (cfg_PROBE_CACHE_SIZE cfg)) (e_timeAtSet env) cacheKey
                                      probeData (pc_cache c1)\<rparr>)))"

subsection \<open>Cache statistics\<close>










section \<open>The two probers\<close>

text \<open>
  What \<^verbatim>\<open>probe\<close> hands to its caller: probe data, or the object
  \<^verbatim>\<open>{ error: message }\<close>. The cache stores whatever object it is given, so its
  values are of this type too.
\<close>

datatype 'd probeObject = ProbeData 'd | ErrorObject string

definition isErrorObject :: "'d probeObject \<Rightarrow> bool" where
  "isErrorObject obj = (case obj of ProbeData d \<Rightarrow> False | ErrorObject m \<Rightarrow> True)"

text \<open>\<^verbatim>\<open>throw new Error(prefix + err.message)\<close> in a catch block.\<close>

definition rethrow :: "string \<Rightarrow> thrown \<Rightarrow> thrown" where
  "rethrow pre err = (case message err of Inr m \<Rightarrow> Err (pre @ m) | Inl t \<Rightarrow> t)"

subsection \<open>The prober with retry and timeout\<close>

record mediaProbeData =
  mp_embeddedCoverArt :: jsval
  mp_format :: jsval
  mp_duration :: jsfloat
  mp_size :: jsval
  mp_audioStream :: "audioInfo option"
  mp_videoStream :: "videoInfo option"
  mp_bitRate :: jsval
  mp_codec :: jsval
  mp_timeBase :: jsval
  mp_language :: jsval
  mp_channelLayout :: jsval
  mp_channels :: jsval
  mp_sampleRate :: jsval
  mp_chapters :: "chapterInfo list"
  mp_audioMetaTags :: tagsInfo

definition joinSpace :: "string list \<Rightarrow> string" where
  "joinSpace xs = (case xs of [] \<Rightarrow> [] | y # ys \<Rightarrow> foldl (\<lambda>acc x. acc @ '' '' @ x) y ys)"

text \<open>\<^verbatim>\<open>probeMinimal\<close> and \<^verbatim>\<open>probeFull\<close> in the round \<open>i\<close> of the retry loop.
  Everything thrown inside is caught and thrown again with a prefix; reading
  \<^verbatim>\<open>data.format\<close> of a parsed \<^verbatim>\<open>null\<close> throws a TypeError.\<close>

definition probeMinimal :: "environment \<Rightarrow> string \<Rightarrow> nat \<Rightarrow> string \<Rightarrow> thrown + probeResult" where
  "probeMinimal env ffprobePath i filepath =
     (let cmd = joinSpace [ffprobePath, ''-v'', ''quiet'', ''-print_format'', ''json'',
                  ''-show_entries'', ''format=duration,size,bit_rate'',
                  ''-show_entries'', ''stream=codec_name,codec_type,sample_rate,channels,bit_rate,time_base'',
                  ''-show_chapters'', [CHR 0x22] @ filepath @ [CHR 0x22]]
      in case e_exec env i cmd of
           ExecFailed m \<Rightarrow> Inl (Err (''ffprobe minimal failed: '' @ m))
         | ExecStdout out \<Rightarrow>
             (case e_jsonParse env out of
                Inl m \<Rightarrow> Inl (Err (''ffprobe minimal failed: '' @ m))
              | Inr None \<Rightarrow>
                  Inl (Err (''ffprobe minimal failed: '' @
                            ''Cannot read properties of null (reading 'format')''))
              | Inr (Some data) \<Rightarrow> Inr (transformMinimalData data)))"

definition probeFull :: "environment \<Rightarrow> string \<Rightarrow> nat \<Rightarrow> string \<Rightarrow> thrown + probeResult" where
  "probeFull env ffprobePath i filepath =
     (let cmd = joinSpace [ffprobePath, ''-v'', ''quiet'', ''-print_format'', ''json'',
                  ''-show_format'', ''-show_streams'', ''-show_chapters'',
                  [CHR 0x22] @ filepath @ [CHR 0x22]]
      in case e_exec env i cmd of
           ExecFailed m \<Rightarrow> Inl (Err (''ffprobe full failed: '' @ m))
         | ExecStdout out \<Rightarrow>
             (case e_jsonParse env out of
                Inl m \<Rightarrow> Inl (Err (''ffprobe full failed: '' @ m))
              | Inr None \<Rightarrow>
                  Inl (Err (''ffprobe full failed: '' @
                            ''Cannot read properties of null (reading 'format')''))
              | Inr (Some data) \<Rightarrow> Inr (transformFullData data)))"

text \<open>The conversion to the shape of MediaProbeData inside \<^verbatim>\<open>probe\<close>.\<close>

definition toMediaProbeData :: "probeResult \<Rightarrow> mediaProbeData" where
  "toMediaProbeData result =
     (let audio = (\<lambda>f. case res_audio_stream result of Some a \<Rightarrow> f a | None \<Rightarrow> JUndefined) in
      \<lparr>mp_embeddedCoverArt =
         js_or (case res_video_stream result of Some v \<Rightarrow> vi_codec v | None \<Rightarrow> JUndefined) JNull,
       mp_format = res_format result,
       mp_duration = res_duration result,
       mp_size = res_size result,
       mp_audioStream = res_audio_stream result,
       mp_videoStream = res_video_stream result,
       mp_bitRate = res_bit_rate result,
       mp_codec = audio ai_codec,
       mp_timeBase = audio ai_time_base,
       mp_language = audio ai_language,
       mp_channelLayout = audio ai_channel_layout,
       mp_channels = audio ai_channels,
       mp_sampleRate = audio ai_sample_rate,
       mp_chapters = res_chapters result,
       mp_audioMetaTags = res_tags result\<rparr>)"

text \<open>
  \<^verbatim>\<open>probe\<close> of the first prober. The result is what awaiting the call gives, \<open>Inl\<close>
  when the call throws, and the cache after the call. The catch block reads
  \<^verbatim>\<open>error.message\<close>, which itself throws when the caught value is \<^verbatim>\<open>undefined\<close>.
\<close>

definition probe1 ::
  "scanConfig \<Rightarrow> environment \<Rightarrow> string \<Rightarrow> files \<Rightarrow> mediaProbeData probeObject probeCache \<Rightarrow> string \<Rightarrow>
     (thrown + mediaProbeData probeObject) \<times> mediaProbeData probeObject probeCache" where
  "probe1 cfg env ffprobePath fs c filepath =
     (case ProbeCache_get cfg env fs c filepath of
        (Some cached, c1) \<Rightarrow> (Inr cached, c1)
      | (None, c1) \<Rightarrow>
          (let probeFunc = (if shouldUseMinimalProbe cfg
                            then (\<lambda>i. probeMinimal env ffprobePath i filepath)
                            else (\<lambda>i. probeFull env ffprobePath i filepath));
               probeWithProtection =
                 withTimeout (fst (withRetry probeFunc (Some (cfg_PROBE_RETRY_TIMES cfg))))
                   (e_timerFirst env)
           in case probeWithProtection of
                Inr result \<Rightarrow>
                  (let probeData = toMediaProbeData result;
                       stored = ProbeCache_set cfg env fs c1 filepath (ProbeData probeData)
                   in (Inr (ProbeData probeData), snd stored))
              | Inl error \<Rightarrow>
                  (case message error of
                     Inr m \<Rightarrow> (Inr (ErrorObject m), c1)
                   | Inl t \<Rightarrow> (Inl t, c1))))"

subsection \<open>The prober that reads a head slice\<close>

text \<open>
  The state the second prober works on: the file system, the cache, and the argument
  lists of the runs of the tool so far. \<^verbatim>\<open>this.TempProbeDir\<close> and
  \<^verbatim>\<open>this.FFProbePath\<close> are arguments.
\<close>

record proberState =
  st_files :: files
  st_cache :: "probeResult probeObject probeCache"
  st_runs :: "string list list"

text \<open>\<^verbatim>\<open>Path.basename\<close> and \<^verbatim>\<open>String.prototype.includes\<close>, for POSIX paths.\<close>

definition basename :: "string \<Rightarrow> string" where
  "basename p = rev (takeWhile (\<lambda>c. c \<noteq> CHR ''/'') (dropWhile (\<lambda>c. c = CHR ''/'') (rev p)))"

fun js_includes :: "string \<Rightarrow> string \<Rightarrow> bool" where
  "js_includes [] sub = (sub = [])"
| "js_includes (c # cs) sub = (take (length sub) (c # cs) = sub \<or> js_includes cs sub)"

text \<open>
  \<^verbatim>\<open>readPartialFile\<close>: the temporary file is named after the file and the time; the
  file is stat'ed, which throws when it does not exist, and its first
  \<^verbatim>\<open>min(size, maxBytes)\<close> bytes are piped into the temporary file. A failure is logged
  and thrown again. (\<^verbatim>\<open>ensureTempDir\<close> swallows its own failure; directories are not
  modelled.)
\<close>

definition readPartialFile ::
  "string \<Rightarrow> environment \<Rightarrow> proberState \<Rightarrow> string \<Rightarrow> nat \<Rightarrow> (thrown + string) \<times> proberState" where
  "readPartialFile TempProbeDir env st filePath maxBytes =
     (let tempFile = TempProbeDir @ ''/'' @ basename filePath @ ''_'' @ showNat (e_now env) @ ''.tmp''
      in case st_files st filePath of
           None \<Rightarrow> (Inl (Err (''ENOENT: no such file or directory, stat '' @ filePath)), st)
         | Some content \<Rightarrow>
             (let bytesToRead = min (length content) maxBytes
              in case e_copy env of
                   CopyDone \<Rightarrow>
                     (Inr tempFile, st\<lparr>st_files := (st_files st)(tempFile \<mapsto> take bytesToRead content)\<rparr>)
                 | CopyFailed m partial \<Rightarrow>
                     (Inl (Err m),
                      case partial of
                        None \<Rightarrow> st
                      | Some written \<Rightarrow> st\<lparr>st_files := (st_files st)(tempFile \<mapsto> written)\<rparr>)))"

text \<open>\<^verbatim>\<open>fs.unlink\<close>: fails on a file that does not exist, or for the reason the
  environment gives.\<close>

definition unlink :: "environment \<Rightarrow> files \<Rightarrow> string \<Rightarrow> thrown + files" where
  "unlink env fs p =
     (case fs p of
        None \<Rightarrow> Inl (Err (''ENOENT: no such file or directory, unlink '' @ p))
      | Some content \<Rightarrow>
          (case e_unlinkError env of
             Some m \<Rightarrow> Inl (Err m)
           | None \<Rightarrow> Inr (fs(p := None))))"

text \<open>
  \<^verbatim>\<open>cleanupTempFile\<close>: the body of the \<^verbatim>\<open>try\<close>, and the method with its empty
  \<^verbatim>\<open>catch\<close>. The argument is \<open>None\<close> for \<^verbatim>\<open>null\<close>. The result is \<open>Inl\<close> when the
  method throws.
\<close>

definition cleanupTempFile_try :: "string \<Rightarrow> environment \<Rightarrow> proberState \<Rightarrow> string option \<Rightarrow> thrown + proberState" where
  "cleanupTempFile_try TempProbeDir env st tempFile =
     (case tempFile of
        None \<Rightarrow> Inr st
      | Some t \<Rightarrow>
          if t \<noteq> [] \<and> js_includes t TempProbeDir then
            (case unlink env (st_files st) t of
               Inl err \<Rightarrow> Inl err
             | Inr fs \<Rightarrow> Inr (st\<lparr>st_files := fs\<rparr>))
          else Inr st)"

definition cleanupTempFile :: "string \<Rightarrow> environment \<Rightarrow> proberState \<Rightarrow> string option \<Rightarrow> thrown + proberState" where
  "cleanupTempFile TempProbeDir env st tempFile =
     (case cleanupTempFile_try TempProbeDir env st tempFile of
        Inl err \<Rightarrow> Inr st
      | Inr st' \<Rightarrow> Inr st')"

text \<open>\<^verbatim>\<open>runFFProbe\<close>: one run of the tool on the file, its output parsed and
  normalised; whatever is thrown on the way is thrown again with a prefix.\<close>

definition runFFProbe ::
  "string \<Rightarrow> scanConfig \<Rightarrow> environment \<Rightarrow> proberState \<Rightarrow> string \<Rightarrow> (thrown + probeResult) \<times> proberState" where
  "runFFProbe FFProbePath cfg env st filePath =
     (let args = [''-v'', ''quiet'', ''-print_format'', ''json'', ''-show_format'', ''-show_streams'',
                  ''-show_chapters'',
                  ''-analyzeduration'',
                  (case cfg_FFPROBE_ANALYZE_DURATION cfg of
                     Some d \<Rightarrow> if d = [] then ''5000000'' else d | None \<Rightarrow> ''5000000''),
                  ''-probesize'',
                  (case cfg_FFPROBE_PROBE_SIZE cfg of
                     Some d \<Rightarrow> if d = [] then ''5000000'' else d | None \<Rightarrow> ''5000000''),
                  filePath];
          st' = st\<lparr>st_runs := st_runs st @ [args]\<rparr>
      in case e_execFile env FFProbePath args of
           ExecFailed m \<Rightarrow> (Inl (Err (''FFProbe failed: '' @ m)), st')
         | ExecStdout out \<Rightarrow>
             (case e_jsonParse env out of
                Inl m \<Rightarrow> (Inl (Err (''FFProbe failed: '' @ m)), st')
              | Inr rawData \<Rightarrow>
                  (case parseProbeData (shouldSkipMetadata cfg) rawData of
                     Inl err \<Rightarrow> (Inl (rethrow ''FFProbe failed: '' err), st')
                   | Inr probeData \<Rightarrow> (Inr probeData, st'))))"

text \<open>
  \<^verbatim>\<open>probe\<close> of the second prober, in the order of the source, in four parts. The
  head slice: the inner \<^verbatim>\<open>try\<close> with its fallback to the file itself; the result is
  \<^verbatim>\<open>tempFile\<close> (\<open>None\<close> for \<^verbatim>\<open>null\<close>) and the state.
\<close>

definition partialRead ::
  "string \<Rightarrow> scanConfig \<Rightarrow> environment \<Rightarrow> proberState \<Rightarrow> string \<Rightarrow> string option \<times> proberState" where
  "partialRead TempProbeDir cfg env st filePath =
     (let usePartialRead = (cfg_USE_PARTIAL_READ cfg \<noteq> Some False);
          maxBytes = (case cfg_PARTIAL_READ_SIZE cfg of
                        Some n \<Rightarrow> if n = 0 then 5 * 1024 * 1024 else n
                      | None \<Rightarrow> 5 * 1024 * 1024)
      in if usePartialRead
         then (case readPartialFile TempProbeDir env st filePath maxBytes of
                 (Inr t, st') \<Rightarrow> (Some t, st')
               | (Inl err, st') \<Rightarrow> (None, st'))
         else (None, st))"

text \<open>
  The run of the tool and the cache store, and the outer \<^verbatim>\<open>catch\<close> that turns what
  was thrown into an error object: the outcome of \<^verbatim>\<open>try\<close> and \<^verbatim>\<open>catch\<close>
  together.
\<close>

definition probeAndStore ::
  "string \<Rightarrow> scanConfig \<Rightarrow> environment \<Rightarrow> proberState \<Rightarrow> string \<Rightarrow> string \<Rightarrow>
     (thrown + probeResult probeObject) \<times> proberState" where
  "probeAndStore FFProbePath cfg env st filePath targetFile =
     (case runFFProbe FFProbePath cfg env st targetFile of
        (Inr result, st3) \<Rightarrow>
          (if shouldUseCache cfg
           then (Inr (ProbeData result),
                 st3\<lparr>st_cache := snd (ProbeCache_set cfg env (st_files st3) (st_cache st3)
                                         filePath (ProbeData result))\<rparr>)
           else (Inr (ProbeData result), st3))
      | (Inl err, st3) \<Rightarrow>
          (case message err of
             Inr m \<Rightarrow> (Inr (ErrorObject m), st3)
           | Inl t \<Rightarrow> (Inl t, st3)))"

text \<open>The \<^verbatim>\<open>finally\<close> block: the temporary file is cleaned up when there is one;
  what the block throws replaces the outcome.\<close>

definition finallyCleanup ::
  "string \<Rightarrow> environment \<Rightarrow> string option \<Rightarrow> (thrown + probeResult probeObject) \<times> proberState \<Rightarrow>
     (thrown + probeResult probeObject) \<times> proberState" where
  "finallyCleanup TempProbeDir env tempFile outcome =
     (case tempFile of
        None \<Rightarrow> outcome
      | Some t \<Rightarrow>
          if t = [] then outcome
          else (case cleanupTempFile TempProbeDir env (snd outcome) (Some t) of
                  Inl thrownByFinally \<Rightarrow> (Inl thrownByFinally, snd outcome)
                | Inr st5 \<Rightarrow> (fst outcome, st5)))"

text \<open>The cache lookup, made only when the cache is in use.\<close>

definition cachedLookup ::
  "scanConfig \<Rightarrow> environment \<Rightarrow> proberState \<Rightarrow> string \<Rightarrow>
     probeResult probeObject option \<times> probeResult probeObject probeCache" where
  "cachedLookup cfg env st filePath =
     (if shouldUseCache cfg
      then ProbeCache_get cfg env (st_files st) (st_cache st) filePath
      else (None, st_cache st))"

text \<open>The method: the cache lookup comes first and returns on a hit.\<close>

definition probe2 ::
  "string \<Rightarrow> string \<Rightarrow> scanConfig \<Rightarrow> environment \<Rightarrow> proberState \<Rightarrow> string \<Rightarrow>
     (thrown + probeResult probeObject) \<times> proberState" where
  "probe2 TempProbeDir FFProbePath cfg env st filePath =
     (let looked = cachedLookup cfg env st filePath;
          st1 = st\<lparr>st_cache := snd looked\<rparr>
      in case fst looked of
           Some cached \<Rightarrow> (Inr cached, st1)
         | None \<Rightarrow>
             (let partial = partialRead TempProbeDir cfg env st1 filePath;
                  tempFile = fst partial;
                  targetFile = (case tempFile of Some t \<Rightarrow> t | None \<Rightarrow> filePath)
              in finallyCleanup TempProbeDir env tempFile
                   (probeAndStore FFProbePath cfg env (snd partial) filePath targetFile)))"

subsection \<open>Caches without error objects, and worked inputs\<close>

text \<open>A cache is clean when none of its values is an error object. The cache a
  process starts with is empty.\<close>

definition cacheClean :: "'d probeObject probeCache \<Rightarrow> bool" where
  "cacheClean c \<longleftrightarrow> (\<forall>e\<in>set (pc_cache c). \<not> isErrorObject (le_value e))"

definition emptyCache :: "'v probeCache" where
  "emptyCache = \<lparr>pc_cache = [], pc_hits = 0, pc_misses = 0, pc_errors = 0\<rparr>"


text \<open>
  A configuration with the defaults of the module and the cache switched on; a file
  system with one book; a stand-in for \<^verbatim>\<open>JSON.parse\<close> that knows two outputs of the
  tool by name, one with a video stream only (and a format bit rate) and one with an
  audio stream that has a bit rate while the format section has none; and an
  environment in which the tool prints \<open>out\<close> whenever it runs, the copy and the unlink
  succeed, and the timer does not fire.
\<close>

definition ex_cfg :: scanConfig where
  "ex_cfg = \<lparr>cfg_SCAN_MODE = ''normal'', cfg_SKIP_METADATA_TAGS = False,
             cfg_ENABLE_PROBE_CACHE = True, cfg_USE_MINIMAL_PROBE = False,
             cfg_PROBE_CACHE_TTL = 604800, cfg_PROBE_CACHE_SIZE = 10000,
             cfg_PROBE_TIMEOUT = 30000, cfg_PROBE_RETRY_TIMES = 3,
             cfg_USE_PARTIAL_READ = None, cfg_PARTIAL_READ_SIZE = None,
             cfg_FFPROBE_ANALYZE_DURATION = None, cfg_FFPROBE_PROBE_SIZE = None\<rparr>"

text \<open>The same configuration when the environment sets \<^verbatim>\<open>PROBE_RETRY_TIMES=-1\<close>.\<close>

definition ex_negativeCfg :: scanConfig where
  "ex_negativeCfg = ex_cfg\<lparr>cfg_PROBE_RETRY_TIMES := - 1\<rparr>"

definition ex_files :: files where
  "ex_files = (\<lambda>p. if p = ''/lib/book.m4b'' then Some ''ftypM4B'' else None)"

definition ex_videoOnly :: rawProbe where
  "ex_videoOnly = ex_raw (JStr ''64000'') [ex_stream ''video'' JUndefined]"

definition ex_audioNoRate :: rawProbe where
  "ex_audioNoRate = ex_raw JUndefined [ex_stream ''audio'' (JStr ''128000'')]"

definition ex_parse :: "string \<Rightarrow> string + rawProbe option" where
  "ex_parse out =
     (if out = ''VIDEO'' then Inr (Some ex_videoOnly)
      else if out = ''AUDIO'' then Inr (Some ex_audioNoRate)
      else Inl ''Unexpected end of JSON input'')"

definition ex_env :: "string \<Rightarrow> environment" where
  "ex_env out =
     \<lparr>e_jsonParse = ex_parse, e_sha256hex = (\<lambda>content. replicate 64 (CHR ''a'')),
      e_timeAtGet = 0, e_timeAtSet = 5, e_now = 1700000000000,
      e_exec = (\<lambda>i cmd. ExecStdout out), e_timerFirst = False,
      e_execFile = (\<lambda>path args. ExecStdout out), e_copy = CopyDone, e_unlinkError = None\<rparr>"

definition ex_state :: proberState where
  "ex_state = \<lparr>st_files = ex_files, st_cache = emptyCache, st_runs = []\<rparr>"

text \<open>
  A path is inside a directory when it starts with the directory's path and a slash.
  The temporary directory of the examples, a temporary file in it, and a file in
  another directory whose name starts with the same characters.
\<close>

definition insideDirectory :: "string \<Rightarrow> string \<Rightarrow> bool" where
  "insideDirectory dir p \<longleftrightarrow> take (length dir + 1) p = dir @ ''/''"

definition ex_dir :: string where
  "ex_dir = ''/tmp/abs-probe-cache''"

definition ex_temp :: string where
  "ex_temp = ''/tmp/abs-probe-cache/book.m4b_1700000000000.tmp''"

definition ex_other :: string where
  "ex_other = ''/tmp/abs-probe-cache-old/book.m4b''"

definition ex_tempState :: proberState where
  "ex_tempState =
     \<lparr>st_files = (\<lambda>p. if p = ex_temp \<or> p = ex_other \<or> p = ''/lib/book.m4b'' then Some ''ftypM4B'' else None),
      st_cache = emptyCache, st_runs = []\<rparr>"

section \<open>Properties of the reconciler\<close>

subsection \<open>A matched file takes every compared field from the candidate\<close>

lemma foldl_keys_md:
  "fst (foldl (compareKey ignore sc) (m, h) metadataKeys) = sc"
  by (cases m; cases sc) (simp add: metadataKeys_def compareKey_def Let_def)

lemma foldl_keys_flag:
  "snd (foldl (compareKey ignore sc) (m, h) metadataKeys) =
    (h \<or> md_path m \<noteq> md_path sc \<or> md_relPath m \<noteq> md_relPath sc \<or> md_size m \<noteq> md_size sc
       \<or> (\<not> ignore \<and> (md_mtimeMs m \<noteq> md_mtimeMs sc \<or> md_ctimeMs m \<noteq> md_ctimeMs sc)))"
  by (cases m; cases sc) (auto simp add: metadataKeys_def compareKey_def Let_def)

lemma cmp_ino: "lf_ino (fst (compareUpdateLibraryFile ignore now e c)) = lf_ino c"
  by (auto simp: compareUpdateLibraryFile_def Let_def)

lemma cmp_md: "lf_metadata (fst (compareUpdateLibraryFile ignore now e c)) = lf_metadata c"
  by (simp add: compareUpdateLibraryFile_def Let_def foldl_keys_md)

lemma cmp_flag:
  "snd (compareUpdateLibraryFile ignore now e c) =
    ((\<not> ignore \<and> lf_ino e \<noteq> lf_ino c)
     \<or> md_path (lf_metadata e) \<noteq> md_path (lf_metadata c)
     \<or> md_relPath (lf_metadata e) \<noteq> md_relPath (lf_metadata c)
     \<or> md_size (lf_metadata e) \<noteq> md_size (lf_metadata c)
     \<or> (\<not> ignore \<and> (md_mtimeMs (lf_metadata e) \<noteq> md_mtimeMs (lf_metadata c)
                      \<or> md_ctimeMs (lf_metadata e) \<noteq> md_ctimeMs (lf_metadata c))))"
  by (auto simp: compareUpdateLibraryFile_def Let_def foldl_keys_flag)

subsection \<open>The item-level part, field by field\<close>

lemma compareItemKey_fields:
  "li_ino (is_item (compareItemKey s st k)) = (if k = K_ino then sd_ino s else li_ino (is_item st))"
  "li_libraryFolderId (is_item (compareItemKey s st k)) =
     (if k = K_libraryFolderId then sd_libraryFolderId s else li_libraryFolderId (is_item st))"
  "li_path (is_item (compareItemKey s st k)) = (if k = K_itemPath then sd_path s else li_path (is_item st))"
  "li_relPath (is_item (compareItemKey s st k)) =
     (if k = K_itemRelPath then sd_relPath s else li_relPath (is_item st))"
  "li_isFile (is_item (compareItemKey s st k)) = (if k = K_isFile then sd_isFile s else li_isFile (is_item st))"
  "li_mtime (is_item (compareItemKey s st k)) = li_mtime (is_item st)"
  "li_ctime (is_item (compareItemKey s st k)) = li_ctime (is_item st)"
  "li_birthtime (is_item (compareItemKey s st k)) = li_birthtime (is_item st)"
  "li_libraryFiles (is_item (compareItemKey s st k)) = li_libraryFiles (is_item st)"
  "li_isMissing (is_item (compareItemKey s st k)) = li_isMissing (is_item st)"
  "is_hasChanges (compareItemKey s st k) = (is_hasChanges st \<or> item_differs k (is_item st) s)"
  by (cases k; simp add: compareItemKey_def)+

lemma checkTimestamps_fields:
  "li_ino (is_item (checkTimestamps ignore s st)) = li_ino (is_item st)"
  "li_libraryFolderId (is_item (checkTimestamps ignore s st)) = li_libraryFolderId (is_item st)"
  "li_path (is_item (checkTimestamps ignore s st)) = li_path (is_item st)"
  "li_relPath (is_item (checkTimestamps ignore s st)) = li_relPath (is_item st)"
  "li_isFile (is_item (checkTimestamps ignore s st)) = li_isFile (is_item st)"
  "li_mtime (is_item (checkTimestamps ignore s st)) = sd_mtimeMs s"
  "li_ctime (is_item (checkTimestamps ignore s st)) = sd_ctimeMs s"
  "li_birthtime (is_item (checkTimestamps ignore s st)) = sd_birthtimeMs s"
  "li_libraryFiles (is_item (checkTimestamps ignore s st)) = li_libraryFiles (is_item st)"
  "li_isMissing (is_item (checkTimestamps ignore s st)) = li_isMissing (is_item st)"
  "is_hasChanges (checkTimestamps True s st) = is_hasChanges st"
  by (simp_all add: checkTimestamps_def Let_def)

lemma checkMissing_fields:
  "li_ino (is_item (checkMissing st)) = li_ino (is_item st)"
  "li_mtime (is_item (checkMissing st)) = li_mtime (is_item st)"
  "li_ctime (is_item (checkMissing st)) = li_ctime (is_item st)"
  "li_birthtime (is_item (checkMissing st)) = li_birthtime (is_item st)"
  "li_libraryFiles (is_item (checkMissing st)) = li_libraryFiles (is_item st)"
  "is_hasChanges (checkMissing st) = (is_hasChanges st \<or> li_isMissing (is_item st))"
  by (simp_all add: checkMissing_def)

lemma foldl_compareItemKey_files:
  "li_libraryFiles (is_item (foldl (compareItemKey s) st ks)) = li_libraryFiles (is_item st)"
  by (induction ks arbitrary: st) (simp_all add: compareItemKey_fields)

lemma itemPhase_files: "li_libraryFiles (is_item (itemPhase ignore s e)) = li_libraryFiles e"
  by (simp add: itemPhase_def checkMissing_fields checkTimestamps_fields foldl_compareItemKey_files)

lemma itemPhase_tolerant_times:
  "li_mtime (is_item (itemPhase True s e)) = sd_mtimeMs s"
  "li_ctime (is_item (itemPhase True s e)) = sd_ctimeMs s"
  "li_birthtime (is_item (itemPhase True s e)) = sd_birthtimeMs s"
  "li_ino (is_item (itemPhase True s e)) = li_ino e"
  by (simp_all add: itemPhase_def keysToCompare_def checkMissing_fields checkTimestamps_fields compareItemKey_fields)

lemma itemPhase_tolerant_flag:
  "is_hasChanges (itemPhase True s e) =
     (li_libraryFolderId e \<noteq> sd_libraryFolderId s \<or> li_path e \<noteq> sd_path s \<or>
      li_relPath e \<noteq> sd_relPath s \<or> li_isFile e \<noteq> sd_isFile s \<or> li_isMissing e)"
  by (auto simp add: itemPhase_def keysToCompare_def checkMissing_fields checkTimestamps_fields compareItemKey_fields)

subsection \<open>The loop over the existing files, field by field\<close>

lemma fileStep_removed:
  "fs_removed (fileStep ignore now cands st e) =
     fs_removed st @ (if findMatching ignore cands e = None then [e] else [])"
  by (simp add: fileStep_def Let_def split: option.splits)

lemma fileStep_added:
  "fs_added (fileStep ignore now cands st e) =
     filter (\<lambda>c. findMatching ignore cands e \<noteq> Some c) (fs_added st)"
  by (cases "findMatching ignore cands e")
     (auto simp add: fileStep_def Let_def intro!: filter_cong)

lemma fileStep_hasChanges:
  "fs_hasChanges (fileStep ignore now cands st e) =
     (fs_hasChanges st \<or>
      (case findMatching ignore cands e of
         None \<Rightarrow> True
       | Some c \<Rightarrow> snd (compareUpdateLibraryFile ignore now e (snd c))))"
  by (simp add: fileStep_def Let_def split: option.splits)

lemma fileStep_modified:
  "fs_modified (fileStep ignore now cands st e) =
     fs_modified st @
      (case findMatching ignore cands e of
         None \<Rightarrow> []
       | Some c \<Rightarrow> if snd (compareUpdateLibraryFile ignore now e (snd c))
                   then [(e, fst (compareUpdateLibraryFile ignore now e (snd c)))] else [])"
  by (simp add: fileStep_def Let_def split: option.splits)

lemma fileStep_files:
  "fs_files (fileStep ignore now cands st e) =
     fs_files st @
      (case findMatching ignore cands e of
         None \<Rightarrow> []
       | Some c \<Rightarrow> [fst (compareUpdateLibraryFile ignore now e (snd c))])"
  by (simp add: fileStep_def Let_def split: option.splits)

lemma loop_removed:
  "fs_removed (foldl (fileStep ignore now cands) st es) =
     fs_removed st @ filter (\<lambda>e. findMatching ignore cands e = None) es"
  by (induction es arbitrary: st) (simp_all add: fileStep_removed)

lemma loop_added:
  "fs_added (foldl (fileStep ignore now cands) st es) =
     filter (\<lambda>c. \<forall>e\<in>set es. findMatching ignore cands e \<noteq> Some c) (fs_added st)"
proof (induction es arbitrary: st)
  case Nil
  show ?case by simp
next
  case (Cons e es)
  show ?case
    unfolding foldl_Cons Cons.IH fileStep_added filter_filter
    by (rule filter_cong) auto
qed

lemma loop_hasChanges:
  "fs_hasChanges (foldl (fileStep ignore now cands) st es) =
     (fs_hasChanges st \<or>
      (\<exists>e\<in>set es. case findMatching ignore cands e of
                      None \<Rightarrow> True
                    | Some c \<Rightarrow> snd (compareUpdateLibraryFile ignore now e (snd c))))"
  by (induction es arbitrary: st) (auto simp add: fileStep_hasChanges)

lemma loop_modified:
  "fs_modified (foldl (fileStep ignore now cands) st es) =
     fs_modified st @
      concat (map (\<lambda>e. case findMatching ignore cands e of
         None \<Rightarrow> []
       | Some c \<Rightarrow> if snd (compareUpdateLibraryFile ignore now e (snd c))
                   then [(e, fst (compareUpdateLibraryFile ignore now e (snd c)))] else []) es)"
  by (induction es arbitrary: st) (simp_all add: fileStep_modified)

lemma loop_files:
  "fs_files (foldl (fileStep ignore now cands) st es) =
     fs_files st @
      concat (map (\<lambda>e. case findMatching ignore cands e of
         None \<Rightarrow> []
       | Some c \<Rightarrow> [fst (compareUpdateLibraryFile ignore now e (snd c))]) es)"
  by (induction es arbitrary: st) (simp_all add: fileStep_files)

subsection \<open>Finding a candidate by position\<close>

lemma find_enumerate_Some:
  assumes "find (\<lambda>c. P (snd c)) (enumerate 0 xs) = Some (j, x)"
  shows "j < length xs \<and> x = xs ! j \<and> P x \<and> (\<forall>i<j. \<not> P (xs ! i))"
proof -
  from assms obtain i where i: "i < length (enumerate 0 xs)" "P (snd (enumerate 0 xs ! i))"
      "(j, x) = enumerate 0 xs ! i" "\<forall>k<i. \<not> P (snd (enumerate 0 xs ! k))"
    unfolding find_Some_iff by blast
  from i(1) have il: "i < length xs" by simp
  with i(3) have "j = i" "x = xs ! i" by (simp_all add: nth_enumerate_eq)
  moreover have "\<forall>k<i. \<not> P (xs ! k)"
  proof (intro allI impI)
    fix k assume "k < i"
    with i(4) il show "\<not> P (xs ! k)" by (simp add: nth_enumerate_eq)
  qed
  ultimately show ?thesis using i(2) il by (simp add: nth_enumerate_eq)
qed

lemma find_enumerate_None:
  "find (\<lambda>c. P (snd c)) (enumerate 0 xs) = None \<longleftrightarrow> (\<forall>x\<in>set xs. \<not> P x)"
proof -
  have "set xs = snd ` set (enumerate 0 xs)"
    by (metis map_snd_enumerate set_map)
  then have "(\<forall>x\<in>set xs. \<not> P x) \<longleftrightarrow> (\<forall>p\<in>set (enumerate 0 xs). \<not> P (snd p))"
    by simp
  then show ?thesis
    unfolding find_None_iff by auto
qed

lemma find_enumerate_distinct:
  assumes "distinct (map f xs)" "i < length xs"
  shows "find (\<lambda>c. f (snd c) = f (xs ! i)) (enumerate 0 xs) = Some (i, xs ! i)"
proof -
  have "\<exists>x\<in>set xs. f x = f (xs ! i)" using assms(2) by auto
  then obtain j x where jx: "find (\<lambda>c. f (snd c) = f (xs ! i)) (enumerate 0 xs) = Some (j, x)"
    using find_enumerate_None [of "\<lambda>x. f x = f (xs ! i)" xs] by (cases "find (\<lambda>c. f (snd c) = f (xs ! i)) (enumerate 0 xs)") auto
  from find_enumerate_Some [of "\<lambda>x. f x = f (xs ! i)", OF jx]
  have "j < length xs" "x = xs ! j" "f (xs ! j) = f (xs ! i)" by auto
  with assms have "j = i" by (metis distinct_conv_nth length_map nth_map)
  with jx \<open>x = xs ! j\<close> show ?thesis by simp
qed

subsection \<open>The result of a run in terms of the two parts\<close>

lemma check_lists:
  "libraryFilesRemoved (checkLibraryItemData ignore now version e s) = fs_removed (filesLoop ignore now (enumerate 0 (sd_libraryFiles s)) (is_hasChanges (itemPhase ignore s e)) (li_libraryFiles e))"
  "libraryFilesModified (checkLibraryItemData ignore now version e s) = fs_modified (filesLoop ignore now (enumerate 0 (sd_libraryFiles s)) (is_hasChanges (itemPhase ignore s e)) (li_libraryFiles e))"
  "libraryFilesAdded (checkLibraryItemData ignore now version e s) =
     map (\<lambda>c. (fst c, markSupplementary (snd c))) (fs_added (filesLoop ignore now (enumerate 0 (sd_libraryFiles s)) (is_hasChanges (itemPhase ignore s e)) (li_libraryFiles e)))"
  "hasChanges (checkLibraryItemData ignore now version e s) =
     (fs_hasChanges (filesLoop ignore now (enumerate 0 (sd_libraryFiles s)) (is_hasChanges (itemPhase ignore s e)) (li_libraryFiles e)) \<or> fs_added (filesLoop ignore now (enumerate 0 (sd_libraryFiles s)) (is_hasChanges (itemPhase ignore s e)) (li_libraryFiles e)) \<noteq> [])"
  by (simp_all add: checkLibraryItemData_def filesLoop_def Let_def itemPhase_files)

lemma check_item:
  "li_libraryFiles (existingItem (checkLibraryItemData ignore now version e s)) =
     fs_files (filesLoop ignore now (enumerate 0 (sd_libraryFiles s)) (is_hasChanges (itemPhase ignore s e)) (li_libraryFiles e)) @
       map (\<lambda>c. toJSON (markSupplementary (snd c))) (fs_added (filesLoop ignore now (enumerate 0 (sd_libraryFiles s)) (is_hasChanges (itemPhase ignore s e)) (li_libraryFiles e)))"
  "li_mtime (existingItem (checkLibraryItemData ignore now version e s)) = li_mtime (is_item (itemPhase ignore s e))"
  "li_ctime (existingItem (checkLibraryItemData ignore now version e s)) = li_ctime (is_item (itemPhase ignore s e))"
  "li_birthtime (existingItem (checkLibraryItemData ignore now version e s)) = li_birthtime (is_item (itemPhase ignore s e))"
  "li_ino (existingItem (checkLibraryItemData ignore now version e s)) = li_ino (is_item (itemPhase ignore s e))"
  by (simp_all add: checkLibraryItemData_def filesLoop_def Let_def itemPhase_files comp_def)

lemma find_enumerate_Some_pair:
  "find (\<lambda>c. P (snd c)) (enumerate 0 xs) = Some c \<Longrightarrow>
     fst c < length xs \<and> snd c = xs ! fst c \<and> P (snd c) \<and> (\<forall>i<fst c. \<not> P (xs ! i))"
  using find_enumerate_Some [of P xs "fst c" "snd c"] by (cases c) auto

lemma loop_files_mem:
  "f \<in> set (fs_files (foldl (fileStep ignore now cands) st es)) \<longleftrightarrow>
     f \<in> set (fs_files st) \<or>
     (\<exists>x\<in>set es. \<exists>c. findMatching ignore cands x = Some c \<and>
        f = fst (compareUpdateLibraryFile ignore now x (snd c)))"
proof (induction es arbitrary: st)
  case Nil
  show ?case by simp
next
  case (Cons e es)
  show ?case
    by (cases "findMatching ignore cands e") (auto simp: Cons.IH fileStep_files)
qed

lemma findMatching_in_cands:
  "findMatching ignore (enumerate 0 cs) e = Some c \<Longrightarrow> fst c < length cs \<and> snd c = cs ! fst c"
  by (auto simp: findMatching_def split: option.splits if_splits dest!: find_enumerate_Some_pair)

lemma findMatching_tolerant_path:
  "findMatching True (enumerate 0 cs) e = Some c \<Longrightarrow>
     md_path (lf_metadata (snd c)) = md_path (lf_metadata e)"
  by (auto simp: findMatching_def split: option.splits if_splits dest!: find_enumerate_Some_pair)

lemma loop_file_from_candidate:
  assumes "f \<in> set (li_libraryFiles (existingItem (checkLibraryItemData ignore now version e s)))"
  shows "\<exists>c\<in>set (sd_libraryFiles s). lf_ino f = lf_ino c \<and> lf_metadata f = lf_metadata c"
proof -
  let ?cands = "enumerate 0 (sd_libraryFiles s)"
  let ?L = "filesLoop ignore now (enumerate 0 (sd_libraryFiles s)) (is_hasChanges (itemPhase ignore s e)) (li_libraryFiles e)"
  from assms consider
      (kept) "f \<in> set (fs_files ?L)"
    | (new) c where "c \<in> set (fs_added ?L)" "f = toJSON (markSupplementary (snd c))"
    by (auto simp: check_item)
  then show ?thesis
  proof cases
    case kept
    then obtain x c where x: "x \<in> set (li_libraryFiles e)" "findMatching ignore ?cands x = Some c"
        "f = fst (compareUpdateLibraryFile ignore now x (snd c))"
      unfolding filesLoop_def loop_files_mem by auto
    from findMatching_in_cands [OF x(2)] have "snd c \<in> set (sd_libraryFiles s)" by simp
    with x(3) show ?thesis by (auto simp: cmp_ino cmp_md)
  next
    case new
    from new(1) have "c \<in> set ?cands" by (simp add: filesLoop_def loop_added)
    then have "snd c \<in> set (sd_libraryFiles s)"
      by (metis map_snd_enumerate set_map imageI)
    with new(2) show ?thesis by (auto simp: toJSON_def markSupplementary_def)
  qed
qed

subsection \<open>A run on inputs that differ in inode and timestamp fields only\<close>

lemma tolerant_match_same_position:
  assumes "map fileCore es = map fileCore cs"
      and "distinct (map (\<lambda>f. md_path (lf_metadata f)) cs)"
      and "i < length cs"
  shows "findMatching True (enumerate 0 cs) (es ! i) = Some (i, cs ! i)"
    and "\<not> snd (compareUpdateLibraryFile True now (es ! i) (cs ! i))"
proof -
  from assms(1) have len: "length es = length cs" by (metis length_map)
  from assms(1,3) len have "fileCore (es ! i) = fileCore (cs ! i)"
    by (metis nth_map)
  then have core: "md_path (lf_metadata (es ! i)) = md_path (lf_metadata (cs ! i))"
      "md_relPath (lf_metadata (es ! i)) = md_relPath (lf_metadata (cs ! i))"
      "md_size (lf_metadata (es ! i)) = md_size (lf_metadata (cs ! i))"
    by (simp_all add: fileCore_def)
  from find_enumerate_distinct [OF assms(2,3)] core(1)
  show "findMatching True (enumerate 0 cs) (es ! i) = Some (i, cs ! i)"
    by (simp add: findMatching_def)
  from core show "\<not> snd (compareUpdateLibraryFile True now (es ! i) (cs ! i))"
    by (simp add: cmp_flag)
qed

lemma tolerant_loop_quiet:
  assumes "map fileCore es = map fileCore cs"
      and "distinct (map (\<lambda>f. md_path (lf_metadata f)) cs)"
  shows "fs_hasChanges (filesLoop True now (enumerate 0 cs) h es) = h"
    and "fs_added (filesLoop True now (enumerate 0 cs) h es) = []"
    and "fs_removed (filesLoop True now (enumerate 0 cs) h es) = []"
    and "fs_modified (filesLoop True now (enumerate 0 cs) h es) = []"
proof -
  from assms(1) have len: "length es = length cs" by (metis length_map)
  have m: "findMatching True (enumerate 0 cs) x = Some (i, cs ! i) \<and>
           \<not> snd (compareUpdateLibraryFile True now x (cs ! i))"
    if "i < length cs" "x = es ! i" for x i
    using tolerant_match_same_position [OF assms that(1)] that(2) by simp
  have each: "\<exists>i<length cs. findMatching True (enumerate 0 cs) x = Some (i, cs ! i) \<and>
           \<not> snd (compareUpdateLibraryFile True now x (cs ! i))" if "x \<in> set es" for x
    using that m len by (metis in_set_conv_nth)
  show "fs_hasChanges (filesLoop True now (enumerate 0 cs) h es) = h"
    using each by (fastforce simp add: filesLoop_def loop_hasChanges)
  show "fs_removed (filesLoop True now (enumerate 0 cs) h es) = []"
    using each by (fastforce simp add: filesLoop_def loop_removed filter_empty_conv)
  show "fs_modified (filesLoop True now (enumerate 0 cs) h es) = []"
    using each by (fastforce simp add: filesLoop_def loop_modified)
  have "\<exists>x\<in>set es. findMatching True (enumerate 0 cs) x = Some c" if "c \<in> set (enumerate 0 cs)" for c
  proof -
    from that have "fst c < length cs" "snd c = cs ! fst c"
      by (auto simp: in_set_enumerate_eq)
    with m [of "fst c" "es ! fst c"] len show ?thesis
      by (metis nth_mem prod.collapse)
  qed
  then show "fs_added (filesLoop True now (enumerate 0 cs) h es) = []"
    by (auto simp add: filesLoop_def loop_added filter_empty_conv)
qed

subsection \<open>What a match does to the three reports\<close>

lemma removed_iff:
  "x \<in> set (libraryFilesRemoved (checkLibraryItemData ignore now version e s)) \<longleftrightarrow>
     x \<in> set (li_libraryFiles e) \<and> findMatching ignore (enumerate 0 (sd_libraryFiles s)) x = None"
  by (auto simp add: check_lists filesLoop_def loop_removed)

lemma matched_not_added:
  assumes "x \<in> set (li_libraryFiles e)"
      and "findMatching ignore (enumerate 0 (sd_libraryFiles s)) x = Some c"
  shows "fst c \<notin> fst ` set (libraryFilesAdded (checkLibraryItemData ignore now version e s))"
proof
  assume "fst c \<in> fst ` set (libraryFilesAdded (checkLibraryItemData ignore now version e s))"
  then obtain d where d: "d \<in> set (enumerate 0 (sd_libraryFiles s))" "fst d = fst c"
      "\<forall>y\<in>set (li_libraryFiles e). findMatching ignore (enumerate 0 (sd_libraryFiles s)) y \<noteq> Some d"
    by (auto simp add: check_lists filesLoop_def loop_added)
  from d(1) have "snd d = sd_libraryFiles s ! fst d" by (auto simp: in_set_enumerate_eq)
  moreover from findMatching_in_cands [OF assms(2)] have "snd c = sd_libraryFiles s ! fst c" by simp
  ultimately have "d = c" using d(2) by (simp add: prod_eq_iff)
  with d(3) assms show False by blast
qed

lemma loop_modified_mem:
  "p \<in> set (fs_modified (foldl (fileStep ignore now cands) st es)) \<longleftrightarrow>
     p \<in> set (fs_modified st) \<or>
     (\<exists>x\<in>set es. \<exists>c. findMatching ignore cands x = Some c \<and>
        snd (compareUpdateLibraryFile ignore now x (snd c)) \<and>
        p = (x, fst (compareUpdateLibraryFile ignore now x (snd c))))"
proof (induction es arbitrary: st)
  case Nil
  show ?case by simp
next
  case (Cons e es)
  show ?case
    by (cases "findMatching ignore cands e") (auto simp: Cons.IH fileStep_modified)
qed

lemma matched_changed_modified:
  assumes "x \<in> set (li_libraryFiles e)"
      and "findMatching ignore (enumerate 0 (sd_libraryFiles s)) x = Some c"
      and "snd (compareUpdateLibraryFile ignore now x (snd c))"
  shows "(x, fst (compareUpdateLibraryFile ignore now x (snd c)))
           \<in> set (libraryFilesModified (checkLibraryItemData ignore now version e s))"
  unfolding check_lists filesLoop_def loop_modified_mem
  using assms by (intro disjI2 bexI [of _ x] exI [of _ c]) simp_all

lemma findMatching_by_path:
  assumes "\<exists>c\<in>set cs. md_path (lf_metadata c) = md_path (lf_metadata x)"
  shows "\<exists>j<length cs. findMatching ignore (enumerate 0 cs) x = Some (j, cs ! j) \<and>
            md_path (lf_metadata (cs ! j)) = md_path (lf_metadata x) \<and>
            (\<forall>i<j. md_path (lf_metadata (cs ! i)) \<noteq> md_path (lf_metadata x))"
proof -
  let ?P = "\<lambda>c. md_path (lf_metadata c) = md_path (lf_metadata x)"
  from assms obtain c where c: "find (\<lambda>c. ?P (snd c)) (enumerate 0 cs) = Some c"
    using find_enumerate_None [of ?P cs] by (cases "find (\<lambda>c. ?P (snd c)) (enumerate 0 cs)") auto
  from find_enumerate_Some_pair [of ?P, OF c] c show ?thesis
    by (intro exI [of _ "fst c"]) (auto simp add: findMatching_def prod_eq_iff)
qed

lemma findMatching_by_ino:
  assumes "\<forall>c\<in>set cs. md_path (lf_metadata c) \<noteq> md_path (lf_metadata x)"
      and "\<exists>c\<in>set cs. lf_ino c = lf_ino x"
  shows "\<exists>j<length cs. findMatching False (enumerate 0 cs) x = Some (j, cs ! j) \<and>
            lf_ino (cs ! j) = lf_ino x \<and> (\<forall>i<j. lf_ino (cs ! i) \<noteq> lf_ino x)"
proof -
  let ?P = "\<lambda>c. md_path (lf_metadata c) = md_path (lf_metadata x)"
  let ?Q = "\<lambda>c. lf_ino c = lf_ino x"
  from assms(1) have n: "find (\<lambda>c. ?P (snd c)) (enumerate 0 cs) = None"
    using find_enumerate_None [of ?P cs] by simp
  from assms(2) obtain c where c: "find (\<lambda>c. ?Q (snd c)) (enumerate 0 cs) = Some c"
    using find_enumerate_None [of ?Q cs] by (cases "find (\<lambda>c. ?Q (snd c)) (enumerate 0 cs)") auto
  from find_enumerate_Some_pair [of ?Q, OF c] c n show ?thesis
    by (intro exI [of _ "fst c"]) (auto simp add: findMatching_def prod_eq_iff)
qed

lemma findMatching_none:
  assumes "\<forall>c\<in>set cs. md_path (lf_metadata c) \<noteq> md_path (lf_metadata x)"
      and "ignore \<or> (\<forall>c\<in>set cs. lf_ino c \<noteq> lf_ino x)"
  shows "findMatching ignore (enumerate 0 cs) x = None"
  using assms find_enumerate_None [of "\<lambda>c. md_path (lf_metadata c) = md_path (lf_metadata x)" cs]
    find_enumerate_None [of "\<lambda>c. lf_ino c = lf_ino x" cs]
  by (auto simp add: findMatching_def prod_eq_iff)

subsection \<open>C1: the Tolerant policy keeps inode and timestamp fields in sync\<close>

text \<open>
  Claim C1, as amended. Under the Tolerant policy (\<open>ignore = True\<close>) a run overwrites the
  item-level \<^verbatim>\<open>mtime\<close>, \<^verbatim>\<open>ctime\<close> and \<^verbatim>\<open>birthtime\<close> of the existing record
  with the candidate's values and leaves the item-level \<^verbatim>\<open>ino\<close> as it was; every
  file of the record after the run carries the \<^verbatim>\<open>ino\<close>, \<^verbatim>\<open>mtimeMs\<close> and
  \<^verbatim>\<open>ctimeMs\<close> of a candidate file with the same path; and when the record and the
  candidate differ in inode and timestamp fields only, \<^verbatim>\<open>hasChanges\<close> is false and no
  file is reported added, removed or modified.
\<close>

theorem tolerant_sync:
  "li_mtime (existingItem (checkLibraryItemData True now version e s)) = sd_mtimeMs s \<and>
   li_ctime (existingItem (checkLibraryItemData True now version e s)) = sd_ctimeMs s \<and>
   li_birthtime (existingItem (checkLibraryItemData True now version e s)) = sd_birthtimeMs s \<and>
   li_ino (existingItem (checkLibraryItemData True now version e s)) = li_ino e \<and>
   (\<forall>f\<in>set (li_libraryFiles (existingItem (checkLibraryItemData True now version e s))).
      \<exists>c\<in>set (sd_libraryFiles s).
         md_path (lf_metadata f) = md_path (lf_metadata c) \<and> lf_ino f = lf_ino c \<and>
         md_mtimeMs (lf_metadata f) = md_mtimeMs (lf_metadata c) \<and>
         md_ctimeMs (lf_metadata f) = md_ctimeMs (lf_metadata c)) \<and>
   (differOnlyInInodeAndTimes e s \<longrightarrow>
      \<not> hasChanges (checkLibraryItemData True now version e s) \<and>
      libraryFilesAdded (checkLibraryItemData True now version e s) = [] \<and>
      libraryFilesRemoved (checkLibraryItemData True now version e s) = [] \<and>
      libraryFilesModified (checkLibraryItemData True now version e s) = [])"
proof -
  have files: "\<forall>f\<in>set (li_libraryFiles (existingItem (checkLibraryItemData True now version e s))).
      \<exists>c\<in>set (sd_libraryFiles s).
         md_path (lf_metadata f) = md_path (lf_metadata c) \<and> lf_ino f = lf_ino c \<and>
         md_mtimeMs (lf_metadata f) = md_mtimeMs (lf_metadata c) \<and>
         md_ctimeMs (lf_metadata f) = md_ctimeMs (lf_metadata c)"
    using loop_file_from_candidate [of _ True now version e s] by fastforce
  have quiet: "\<not> hasChanges (checkLibraryItemData True now version e s) \<and>
      libraryFilesAdded (checkLibraryItemData True now version e s) = [] \<and>
      libraryFilesRemoved (checkLibraryItemData True now version e s) = [] \<and>
      libraryFilesModified (checkLibraryItemData True now version e s) = []"
    if d: "differOnlyInInodeAndTimes e s"
  proof -
    from d have a: "map fileCore (li_libraryFiles e) = map fileCore (sd_libraryFiles s)"
      and b: "distinct (map (\<lambda>f. md_path (lf_metadata f)) (sd_libraryFiles s))"
      and c: "\<not> is_hasChanges (itemPhase True s e)"
      by (simp_all add: differOnlyInInodeAndTimes_def itemPhase_tolerant_flag)
    show ?thesis
      using c by (simp add: check_lists tolerant_loop_quiet [OF a b])
  qed
  show ?thesis
    using files quiet by (simp add: check_item itemPhase_tolerant_times)
qed

theorem tolerant_sync_witness:
  "differOnlyInInodeAndTimes ex_bookItem ex_bookScan \<and>
   \<not> hasChanges (checkLibraryItemData True 300 ''2.0'' ex_bookItem ex_bookScan) \<and>
   libraryFilesAdded (checkLibraryItemData True 300 ''2.0'' ex_bookItem ex_bookScan) = [] \<and>
   libraryFilesRemoved (checkLibraryItemData True 300 ''2.0'' ex_bookItem ex_bookScan) = [] \<and>
   libraryFilesModified (checkLibraryItemData True 300 ''2.0'' ex_bookItem ex_bookScan) = [] \<and>
   li_mtime (existingItem (checkLibraryItemData True 300 ''2.0'' ex_bookItem ex_bookScan)) = Some 200 \<and>
   li_ino (existingItem (checkLibraryItemData True 300 ''2.0'' ex_bookItem ex_bookScan)) = Some 7"
proof -
  have d: "differOnlyInInodeAndTimes ex_bookItem ex_bookScan"
    by (simp add: differOnlyInInodeAndTimes_def ex_bookItem_def ex_bookScan_def ex_item_def
        ex_scan_def ex_file_def fileCore_def)
  have t: "sd_mtimeMs ex_bookScan = Some 200" "li_ino ex_bookItem = Some 7"
    by (simp_all add: ex_bookItem_def ex_bookScan_def ex_item_def ex_scan_def)
  from tolerant_sync [of 300 "''2.0''" ex_bookItem ex_bookScan] d t
  show ?thesis by simp
qed

text \<open>
  The claim as it was written also has the item-level \<^verbatim>\<open>ino\<close> overwritten. The
  Tolerant policy takes \<^verbatim>\<open>ino\<close> out of \<^verbatim>\<open>keysToCompare\<close>, and a key that is not
  compared is not adopted either: in the end-to-end scenario the record keeps inode 7
  although the scan reports none.
\<close>

theorem tolerant_item_ino_counterexample:
  "li_ino (existingItem (checkLibraryItemData True 300 ''2.0'' ex_bookItem ex_bookScan)) = Some 7 \<and>
   sd_ino ex_bookScan = None \<and>
   li_ino (existingItem (checkLibraryItemData True 300 ''2.0'' ex_bookItem ex_bookScan))
     \<noteq> sd_ino ex_bookScan"
  by (simp add: check_item itemPhase_tolerant_times ex_bookItem_def ex_bookScan_def ex_item_def
      ex_scan_def)

subsection \<open>C2: a file is matched by path first, by inode second\<close>

text \<open>
  Claim C2. For every existing file \<open>x\<close> of the persisted record: if some candidate has
  the same \<^verbatim>\<open>metadata.path\<close>, the first such candidate is its match under either
  policy (\<open>x\<close> is not removed, that candidate is not added). If no candidate has its
  path and, under the Strict policy, some candidate has its inode, the first such
  candidate is its match: \<open>x\<close> is not reported removed, the candidate is not reported
  added, and \<open>x\<close> is reported modified with the candidate's path in place of its own.
  If no candidate has its path and the policy is Tolerant, or no candidate has its inode
  either, \<open>x\<close> is reported removed. A candidate is named by its position in
  \<^verbatim>\<open>this.libraryFiles\<close>.
\<close>

theorem path_then_inode_matching:
  assumes "x \<in> set (li_libraryFiles e)"
  shows "((\<exists>c\<in>set (sd_libraryFiles s). md_path (lf_metadata c) = md_path (lf_metadata x)) \<longrightarrow>
           x \<notin> set (libraryFilesRemoved (checkLibraryItemData ignore now version e s)) \<and>
           (\<exists>j<length (sd_libraryFiles s).
              md_path (lf_metadata (sd_libraryFiles s ! j)) = md_path (lf_metadata x) \<and>
              (\<forall>i<j. md_path (lf_metadata (sd_libraryFiles s ! i)) \<noteq> md_path (lf_metadata x)) \<and>
              j \<notin> fst ` set (libraryFilesAdded (checkLibraryItemData ignore now version e s))))
       \<and> ((\<forall>c\<in>set (sd_libraryFiles s). md_path (lf_metadata c) \<noteq> md_path (lf_metadata x)) \<and>
           (\<exists>c\<in>set (sd_libraryFiles s). lf_ino c = lf_ino x) \<longrightarrow>
           x \<notin> set (libraryFilesRemoved (checkLibraryItemData False now version e s)) \<and>
           (\<exists>j<length (sd_libraryFiles s).
              lf_ino (sd_libraryFiles s ! j) = lf_ino x \<and>
              (\<forall>i<j. lf_ino (sd_libraryFiles s ! i) \<noteq> lf_ino x) \<and>
              j \<notin> fst ` set (libraryFilesAdded (checkLibraryItemData False now version e s)) \<and>
              (\<exists>x'. (x, x') \<in> set (libraryFilesModified (checkLibraryItemData False now version e s)) \<and>
                    md_path (lf_metadata x') = md_path (lf_metadata (sd_libraryFiles s ! j)) \<and>
                    md_path (lf_metadata x') \<noteq> md_path (lf_metadata x) \<and>
                    lf_ino x' = lf_ino x)))
       \<and> ((\<forall>c\<in>set (sd_libraryFiles s). md_path (lf_metadata c) \<noteq> md_path (lf_metadata x)) \<and>
           (ignore \<or> (\<forall>c\<in>set (sd_libraryFiles s). lf_ino c \<noteq> lf_ino x)) \<longrightarrow>
           x \<in> set (libraryFilesRemoved (checkLibraryItemData ignore now version e s)))"
proof (intro conjI impI)
  assume a: "\<exists>c\<in>set (sd_libraryFiles s). md_path (lf_metadata c) = md_path (lf_metadata x)"
  from findMatching_by_path [OF a, of ignore] obtain j where j: "j < length (sd_libraryFiles s)"
      "findMatching ignore (enumerate 0 (sd_libraryFiles s)) x = Some (j, sd_libraryFiles s ! j)"
      "md_path (lf_metadata (sd_libraryFiles s ! j)) = md_path (lf_metadata x)"
      "\<forall>i<j. md_path (lf_metadata (sd_libraryFiles s ! i)) \<noteq> md_path (lf_metadata x)"
    by blast
  from j(2) show "x \<notin> set (libraryFilesRemoved (checkLibraryItemData ignore now version e s))"
    by (simp add: removed_iff)
  from matched_not_added [OF assms j(2)] j(1,3,4)
  show "\<exists>j<length (sd_libraryFiles s).
              md_path (lf_metadata (sd_libraryFiles s ! j)) = md_path (lf_metadata x) \<and>
              (\<forall>i<j. md_path (lf_metadata (sd_libraryFiles s ! i)) \<noteq> md_path (lf_metadata x)) \<and>
              j \<notin> fst ` set (libraryFilesAdded (checkLibraryItemData ignore now version e s))"
    by auto
next
  assume b: "(\<forall>c\<in>set (sd_libraryFiles s). md_path (lf_metadata c) \<noteq> md_path (lf_metadata x)) \<and>
           (\<exists>c\<in>set (sd_libraryFiles s). lf_ino c = lf_ino x)"
  then have np: "\<forall>c\<in>set (sd_libraryFiles s). md_path (lf_metadata c) \<noteq> md_path (lf_metadata x)"
    and ei: "\<exists>c\<in>set (sd_libraryFiles s). lf_ino c = lf_ino x" by simp_all
  from findMatching_by_ino [OF np ei] obtain j where j: "j < length (sd_libraryFiles s)"
      "findMatching False (enumerate 0 (sd_libraryFiles s)) x = Some (j, sd_libraryFiles s ! j)"
      "lf_ino (sd_libraryFiles s ! j) = lf_ino x"
      "\<forall>i<j. lf_ino (sd_libraryFiles s ! i) \<noteq> lf_ino x"
    by blast
  from j(2) show "x \<notin> set (libraryFilesRemoved (checkLibraryItemData False now version e s))"
    by (simp add: removed_iff)
  let ?x' = "fst (compareUpdateLibraryFile False now x (sd_libraryFiles s ! j))"
  from np j(1) have pd: "md_path (lf_metadata (sd_libraryFiles s ! j)) \<noteq> md_path (lf_metadata x)"
    by simp
  then have "snd (compareUpdateLibraryFile False now x (sd_libraryFiles s ! j))"
    by (auto simp add: cmp_flag)
  with matched_changed_modified [OF assms j(2), of now version]
  have "(x, ?x') \<in> set (libraryFilesModified (checkLibraryItemData False now version e s))"
    by simp
  moreover have "md_path (lf_metadata ?x') = md_path (lf_metadata (sd_libraryFiles s ! j))"
    "lf_ino ?x' = lf_ino x"
    using j(3) by (simp_all add: cmp_md cmp_ino)
  moreover from matched_not_added [OF assms j(2)]
  have "j \<notin> fst ` set (libraryFilesAdded (checkLibraryItemData False now version e s))" by simp
  ultimately
  show "\<exists>j<length (sd_libraryFiles s).
              lf_ino (sd_libraryFiles s ! j) = lf_ino x \<and>
              (\<forall>i<j. lf_ino (sd_libraryFiles s ! i) \<noteq> lf_ino x) \<and>
              j \<notin> fst ` set (libraryFilesAdded (checkLibraryItemData False now version e s)) \<and>
              (\<exists>x'. (x, x') \<in> set (libraryFilesModified (checkLibraryItemData False now version e s)) \<and>
                    md_path (lf_metadata x') = md_path (lf_metadata (sd_libraryFiles s ! j)) \<and>
                    md_path (lf_metadata x') \<noteq> md_path (lf_metadata x) \<and>
                    lf_ino x' = lf_ino x)"
    using j(1,3,4) pd by (intro exI [of _ j]) auto
next
  assume c: "(\<forall>c\<in>set (sd_libraryFiles s). md_path (lf_metadata c) \<noteq> md_path (lf_metadata x)) \<and>
           (ignore \<or> (\<forall>c\<in>set (sd_libraryFiles s). lf_ino c \<noteq> lf_ino x))"
  then have "findMatching ignore (enumerate 0 (sd_libraryFiles s)) x = None"
    using findMatching_none [of "sd_libraryFiles s" x ignore] by blast
  with assms show "x \<in> set (libraryFilesRemoved (checkLibraryItemData ignore now version e s))"
    by (simp add: removed_iff)
qed

theorem path_then_inode_matching_witness:
  "ex_fileA \<in> set (li_libraryFiles ex_renameItem) \<and>
   \<not> (\<exists>c\<in>set (sd_libraryFiles ex_renameScan).
         md_path (lf_metadata c) = md_path (lf_metadata ex_fileA)) \<and>
   (\<exists>c\<in>set (sd_libraryFiles ex_renameScan). lf_ino c = lf_ino ex_fileA) \<and>
   ex_fileA \<notin> set (libraryFilesRemoved (checkLibraryItemData False 300 ''2.0'' ex_renameItem ex_renameScan)) \<and>
   (\<exists>j<length (sd_libraryFiles ex_renameScan).
      lf_ino (sd_libraryFiles ex_renameScan ! j) = lf_ino ex_fileA \<and>
      j \<notin> fst ` set (libraryFilesAdded (checkLibraryItemData False 300 ''2.0'' ex_renameItem ex_renameScan)) \<and>
      (\<exists>x'. (ex_fileA, x') \<in> set (libraryFilesModified
                   (checkLibraryItemData False 300 ''2.0'' ex_renameItem ex_renameScan)) \<and>
            md_path (lf_metadata x') = md_path (lf_metadata (sd_libraryFiles ex_renameScan ! j)) \<and>
            md_path (lf_metadata x') \<noteq> md_path (lf_metadata ex_fileA)))"
proof -
  have mem: "ex_fileA \<in> set (li_libraryFiles ex_renameItem)"
    by (simp add: ex_renameItem_def ex_item_def)
  have np: "\<forall>c\<in>set (sd_libraryFiles ex_renameScan).
              md_path (lf_metadata c) \<noteq> md_path (lf_metadata ex_fileA)"
    by (simp add: ex_renameScan_def ex_scan_def ex_fileA_def ex_file_def)
  have ei: "\<exists>c\<in>set (sd_libraryFiles ex_renameScan). lf_ino c = lf_ino ex_fileA"
    by (simp add: ex_renameScan_def ex_scan_def ex_fileA_def ex_file_def)
  from path_then_inode_matching [OF mem, of ex_renameScan False 300 "''2.0''"] np ei
  show ?thesis using mem by blast
qed

section \<open>Properties of the prober\<close>

subsection \<open>C6: retrying until the attempt that succeeds\<close>

lemma loop_round_fails:
  assumes "int i < ntimes" and "fn i = Inl er" and "int i < ntimes - 1 \<longrightarrow> er \<noteq> ThrownUndefined"
  shows "withRetry_loop fn ntimes i le ds =
         withRetry_loop fn ntimes (Suc i) er (if int i < ntimes - 1 then ds @ [1000 * (i + 1)] else ds)"
  using assms by (subst withRetry_loop.simps) (auto simp add: message_def split: thrown.splits)

lemma loop_round_typeError:
  assumes "int i < ntimes - 1" and "fn i = Inl ThrownUndefined"
  shows "withRetry_loop fn ntimes i le ds =
         (Inl (Err ''Cannot read properties of undefined (reading 'message')''), ds)"
  using assms by (subst withRetry_loop.simps) (simp add: message_def)

lemma loop_round_succeeds:
  assumes "int i < ntimes" and "fn i = Inr v"
  shows "withRetry_loop fn ntimes i le ds = (Inr v, ds)"
  using assms by (subst withRetry_loop.simps) simp

lemma loop_exhausted:
  assumes "\<not> int i < ntimes"
  shows "withRetry_loop fn ntimes i le ds = (Inl le, ds)"
  using assms by (subst withRetry_loop.simps) simp

lemma loop_fail_prefix:
  assumes "\<forall>k. i \<le> k \<and> k < m \<longrightarrow> fn k = Inl (e k) \<and> e k \<noteq> ThrownUndefined" and "int m \<le> ntimes"
  shows "withRetry_loop fn ntimes i le ds =
         withRetry_loop fn ntimes (max i m) (if m \<le> i then le else e (m - 1))
           (ds @ map (\<lambda>k. 1000 * (k + 1)) (filter (\<lambda>k. int k < ntimes - 1) [i..<m]))"
  using assms
proof (induction m)
  case 0
  then show ?case by simp
next
  case (Suc m)
  show ?case
  proof (cases "Suc m \<le> i")
    case True
    then show ?thesis by (simp add: max_def)
  next
    case False
    then have im: "i \<le> m" by simp
    from Suc.prems have fm: "fn m = Inl (e m)" and lt: "int m < ntimes"
      and ne: "int m < ntimes - 1 \<longrightarrow> e m \<noteq> ThrownUndefined" using im by auto
    from Suc.prems have "withRetry_loop fn ntimes i le ds =
         withRetry_loop fn ntimes (max i m) (if m \<le> i then le else e (m - 1))
           (ds @ map (\<lambda>k. 1000 * (k + 1)) (filter (\<lambda>k. int k < ntimes - 1) [i..<m]))"
      by (intro Suc.IH) auto
    also have "max i m = m" using im by simp
    also have "withRetry_loop fn ntimes m (if m \<le> i then le else e (m - 1))
           (ds @ map (\<lambda>k. 1000 * (k + 1)) (filter (\<lambda>k. int k < ntimes - 1) [i..<m])) =
        withRetry_loop fn ntimes (Suc m) (e m)
           (ds @ map (\<lambda>k. 1000 * (k + 1)) (filter (\<lambda>k. int k < ntimes - 1) [i..<Suc m]))"
      using im by (simp add: loop_round_fails [of m ntimes fn "e m", OF lt fm ne])
    finally show ?thesis using im by (simp add: max_def)
  qed
qed

text \<open>
  Claim C6, as amended. Let the probe function fail on the attempts 1 to N - 1, rejecting
  in round \<open>k\<close> (rounds count from 0) with \<open>e k\<close>, a value whose message can be read
  (an \<^verbatim>\<open>Error\<close>, not \<^verbatim>\<open>undefined\<close>), and succeed with \<open>v\<close> on attempt N. Then
  \<^verbatim>\<open>withRetry\<close> with attempt count N resolves with \<open>v\<close>, having slept 1000 ms after the
  first failure, 2000 ms after the second, and so on; with attempt count N - 1, when that
  is at least 1, it rejects with the error of the last attempt made, \<open>e (N - 2)\<close>; and
  for N = 1 the count N - 1 is 0, no attempt is made, and it rejects with the unassigned
  \<^verbatim>\<open>lastError\<close>, which is \<^verbatim>\<open>undefined\<close>.
\<close>

theorem retry_until_success:
  assumes "0 < N"
      and "\<forall>k. Suc k < N \<longrightarrow> fn k = Inl (e k) \<and> e k \<noteq> ThrownUndefined"
      and "fn (N - 1) = Inr v"
  shows "withRetry fn (Some (int N)) = (Inr v, map (\<lambda>k. 1000 * (k + 1)) [0..<N - 1]) \<and>
         (1 < N \<longrightarrow> fst (withRetry fn (Some (int N - 1))) = Inl (e (N - 2))) \<and>
         (N = 1 \<longrightarrow> fst (withRetry fn (Some (int N - 1))) = Inl ThrownUndefined)"
proof -
  have pre: "\<forall>k. 0 \<le> k \<and> k < N - 1 \<longrightarrow> fn k = Inl (e k) \<and> e k \<noteq> ThrownUndefined"
    using assms(2) by auto
  have a: "int (N - 1) \<le> int N" by simp
  have b: "int (N - 1) \<le> int N - 1" using assms(1) by simp
  have lt: "int (N - 1) < int N" using assms(1) by simp
  have ex: "\<not> int (N - 1) < int N - 1" by simp
  have m: "max 0 (N - 1) = N - 1" by simp
  have f: "filter (\<lambda>k. int k < int N - 1) [0..<N - 1] = [0..<N - 1]"
    by (rule filter_True) auto
  have "withRetry_loop fn (int N) 0 ThrownUndefined [] = (Inr v, map (\<lambda>k. 1000 * (k + 1)) [0..<N - 1])"
    unfolding loop_fail_prefix [OF pre a, of ThrownUndefined "[]"] m
      loop_round_succeeds [of "N - 1" "int N" fn v, OF lt assms(3)] f
    by simp
  moreover have "fst (withRetry_loop fn (int N - 1) 0 ThrownUndefined []) =
      Inl (if N - 1 \<le> 0 then ThrownUndefined else e (N - 1 - 1))"
    unfolding loop_fail_prefix [OF pre b, of ThrownUndefined "[]"] m
      loop_exhausted [of "N - 1" "int N - 1", OF ex]
    by simp
  moreover have "N - 1 - 1 = N - 2" by simp
  moreover have "N - 1 \<le> 0 \<longleftrightarrow> N = 1" using assms(1) by auto
  ultimately show ?thesis by (simp add: withRetry_def loop_exhausted)
qed

theorem retry_until_success_witness:
  "withRetry (\<lambda>k. if k < 2 then Inl (Err (showNat k)) else Inr (42::nat)) (Some 3) = (Inr 42, [1000, 2000]) \<and>
   fst (withRetry (\<lambda>k. if k < 2 then Inl (Err (showNat k)) else Inr (42::nat)) (Some 2)) = Inl (Err ''1'') \<and>
   fst (withRetry (\<lambda>k. Inr (42::nat)) (Some 0)) = Inl ThrownUndefined"
  using retry_until_success [of 3 "\<lambda>k. if k < 2 then Inl (Err (showNat k)) else Inr (42::nat)"
      "\<lambda>k. Err (showNat k)" 42]
    retry_until_success [of 1 "\<lambda>k. Inr (42::nat)" "\<lambda>k. Err []" 42]
  by (simp add: upt_rec)

text \<open>
  Claim C6 as it was stated fails in two places. A probe function that rejects with
  \<^verbatim>\<open>undefined\<close> on attempt 1 and would succeed on attempt 2 is called once: with
  attempt count 2 the catch block throws a TypeError on \<^verbatim>\<open>error.message\<close> and the
  wrapper rejects with it instead of the success. And a probe function that succeeds on
  attempt 1 (N = 1) is not called at all with attempt count 0: the wrapper rejects with
  \<^verbatim>\<open>undefined\<close>, which is no attempt's error.
\<close>

theorem retry_undefined_rejection_counterexample:
  "fst (withRetry (\<lambda>k. if k < 1 then Inl ThrownUndefined else Inr (42::nat)) (Some 2)) =
     Inl (Err ''Cannot read properties of undefined (reading 'message')'') \<and>
   fst (withRetry (\<lambda>k. Inr (42::nat)) (Some 1)) = Inr 42 \<and>
   fst (withRetry (\<lambda>k. Inr (42::nat)) (Some 0)) = Inl ThrownUndefined"
  by (simp add: withRetry_def loop_round_typeError loop_round_succeeds loop_exhausted)

subsection \<open>C5: when a run of the tool counts as a success\<close>

text \<open>
  Claim C5, as amended. The promise of \<^verbatim>\<open>doProbe\<close> resolves, and then with the
  parsed stdout, exactly when the process was spawned, stdout is parseable JSON, and the
  exit code is 0 or nothing was written to stderr; in every other case it rejects. So a
  run with exit code 0 and parseable stdout resolves with the parsed result, a run with
  unparseable stdout rejects, and a run with a nonzero exit code rejects when it wrote to
  stderr.
\<close>

theorem doProbe_settles:
  "doProbe spawn jsonParse FFPROBE_PATH file options = Inr j \<longleftrightarrow>
     pr_error (spawn (ffprobeCommand FFPROBE_PATH) (buildArgs options file)) = None \<and>
     (pr_exitCode (spawn (ffprobeCommand FFPROBE_PATH) (buildArgs options file)) = Some 0 \<or>
      pr_stderr (spawn (ffprobeCommand FFPROBE_PATH) (buildArgs options file)) = []) \<and>
     jsonParse (concat (pr_stdout (spawn (ffprobeCommand FFPROBE_PATH) (buildArgs options file)))) = Inr j"
  by (auto simp add: doProbe_def onClose_def Let_def split: option.splits sum.splits)

text \<open>
  The claim as it was written has every run with a nonzero exit code rejected. The
  \<^verbatim>\<open>'close'\<close> handler rejects on the exit code only together with output on stderr
  (\<^verbatim>\<open>exitCode !== 0 && errData.length\<close>); the tool is started with
  \<^verbatim>\<open>-show_error\<close>, which puts its error report into the JSON on stdout. A run that
  exits with code 1, writes \<^verbatim>\<open>{}\<close> to stdout and nothing to stderr resolves.
\<close>

theorem doProbe_nonzero_exit_counterexample:
  "pr_exitCode ex_run = Some 1 \<and>
   ex_jsonParse (concat (pr_stdout ex_run)) = Inr [] \<and>
   doProbe (\<lambda>command args. ex_run) ex_jsonParse None ''/lib/book.m4b'' NoOptions = Inr []"
  by (simp add: doProbe_def onClose_def ex_run_def ex_jsonParse_def)

subsection \<open>What the parts of the two probers throw and return\<close>

lemma cleanup_never_throws:
  "\<exists>st'. cleanupTempFile TempProbeDir env st tempFile = Inr st'"
  by (simp add: cleanupTempFile_def split: sum.splits)

lemma cleanup_not_Inl: "cleanupTempFile TempProbeDir env st tempFile \<noteq> Inl x"
  by (simp add: cleanupTempFile_def split: sum.splits)

lemma cleanup_cache:
  "cleanupTempFile TempProbeDir env st tempFile = Inr st' \<Longrightarrow>
     st_cache st' = st_cache st \<and> st_runs st' = st_runs st"
  by (auto simp add: cleanupTempFile_def cleanupTempFile_try_def
      split: sum.splits option.splits if_splits)

lemma parseProbeData_throws_Err: "parseProbeData skip raw = Inl t \<Longrightarrow> \<exists>m. t = Err m"
  by (auto simp add: parseProbeData_def Let_def split: option.splits)

lemma runFFProbe_throws_Err: "fst (runFFProbe P cfg env st f) = Inl t \<Longrightarrow> \<exists>m. t = Err m"
  by (auto simp add: runFFProbe_def Let_def rethrow_def message_def
      split: execOutcome.splits sum.splits dest!: parseProbeData_throws_Err)

lemma probeAndStore_returns:
  "\<exists>obj st'. probeAndStore FFProbePath cfg env st filePath targetFile = (Inr obj, st')"
proof (cases "runFFProbe FFProbePath cfg env st targetFile")
  case (Pair r st3)
  show ?thesis
  proof (cases r)
    case (Inl err)
    with Pair runFFProbe_throws_Err [of FFProbePath cfg env st targetFile err]
    obtain m where "err = Err m" by auto
    with Pair Inl show ?thesis by (simp add: probeAndStore_def message_def)
  next
    case (Inr result)
    with Pair show ?thesis by (simp add: probeAndStore_def)
  qed
qed

lemma finallyCleanup_returns:
  "fst outcome = Inr obj \<Longrightarrow> \<exists>st'. finallyCleanup TempProbeDir env tempFile outcome = (Inr obj, st')"
  using cleanup_not_Inl [of TempProbeDir env "snd outcome"]
  by (cases outcome) (auto simp add: finallyCleanup_def split: option.splits sum.splits)

lemma probe2_returns:
  "\<exists>obj st'. probe2 TempProbeDir FFProbePath cfg env st filePath = (Inr obj, st')"
proof (cases "fst (cachedLookup cfg env st filePath)")
  case (Some cached)
  then show ?thesis by (simp add: probe2_def Let_def)
next
  case None
  let ?st1 = "st\<lparr>st_cache := snd (cachedLookup cfg env st filePath)\<rparr>"
  let ?partial = "partialRead TempProbeDir cfg env ?st1 filePath"
  let ?target = "case fst ?partial of Some t \<Rightarrow> t | None \<Rightarrow> filePath"
  obtain obj st3 where o: "probeAndStore FFProbePath cfg env (snd ?partial) filePath ?target = (Inr obj, st3)"
    using probeAndStore_returns by blast
  then have "fst (probeAndStore FFProbePath cfg env (snd ?partial) filePath ?target) = Inr obj" by simp
  from finallyCleanup_returns [OF this, of TempProbeDir env "fst ?partial"]
  obtain st5 where "finallyCleanup TempProbeDir env (fst ?partial)
      (probeAndStore FFProbePath cfg env (snd ?partial) filePath ?target) = (Inr obj, st5)"
    by blast
  with None show ?thesis by (simp add: probe2_def Let_def)
qed

lemma loop_throws_Err:
  "(\<And>k t. fn k = Inl t \<Longrightarrow> \<exists>m. t = Err m) \<Longrightarrow>
   (\<exists>m. le = Err m) \<or> int i < ntimes \<Longrightarrow>
   fst (withRetry_loop fn ntimes i le ds) = Inl t \<Longrightarrow> \<exists>m. t = Err m"
proof (induction "nat (ntimes - int i)" arbitrary: i le ds)
  case 0
  then have "\<not> int i < ntimes" by simp
  with "0.prems"(2,3) show ?case by (simp add: loop_exhausted)
next
  case (Suc n)
  then have lt: "int i < ntimes" by simp
  show ?case
  proof (cases "fn i")
    case (Inr v)
    with lt Suc.prems(3) show ?thesis by (simp add: loop_round_succeeds)
  next
    case (Inl er)
    from Suc.prems(1) [OF Inl] obtain m where er: "er = Err m" by blast
    then have ne: "int i < ntimes - 1 \<longrightarrow> er \<noteq> ThrownUndefined" by simp
    have n: "n = nat (ntimes - int (Suc i))" using Suc.hyps(2) by simp
    have e: "(\<exists>m. er = Err m) \<or> int (Suc i) < ntimes" using er by simp
    from Suc.prems(3) have "fst (withRetry_loop fn ntimes (Suc i) er
         (if int i < ntimes - 1 then ds @ [1000 * (i + 1)] else ds)) = Inl t"
      by (simp only: loop_round_fails [of i ntimes fn er, OF lt Inl ne])
    from Suc.hyps(1) [OF n Suc.prems(1) e this] show ?thesis by simp
  qed
qed

lemma probeMinimal_throws_Err: "probeMinimal env p i f = Inl t \<Longrightarrow> \<exists>m. t = Err m"
  by (auto simp add: probeMinimal_def Let_def split: execOutcome.splits sum.splits option.splits)

lemma probeFull_throws_Err: "probeFull env p i f = Inl t \<Longrightarrow> \<exists>m. t = Err m"
  by (auto simp add: probeFull_def Let_def split: execOutcome.splits sum.splits option.splits)

lemma withRetry_throws_Err:
  assumes "\<And>k t. fn k = Inl t \<Longrightarrow> \<exists>m. t = Err m" and "0 < n"
      and "fst (withRetry fn (Some n)) = Inl t"
  shows "\<exists>m. t = Err m"
  using loop_throws_Err [of fn ThrownUndefined 0 n "[]" t] assms
  by (simp add: withRetry_def)

lemma withTimeout_throws_Err:
  "withTimeout p b = Inl t \<Longrightarrow> (p = Inl t \<Longrightarrow> \<exists>m. t = Err m) \<Longrightarrow> \<exists>m. t = Err m"
  by (auto simp add: withTimeout_def split: if_splits)

lemma probe1_returns:
  assumes "0 < cfg_PROBE_RETRY_TIMES cfg"
  shows "\<exists>obj c'. probe1 cfg env ffprobePath fs c filepath = (Inr obj, c')"
proof (cases "ProbeCache_get cfg env fs c filepath")
  case (Pair cached c1)
  show ?thesis
  proof (cases cached)
    case (Some v)
    with Pair show ?thesis by (simp add: probe1_def)
  next
    case None
    let ?fn = "if shouldUseMinimalProbe cfg
               then (\<lambda>i. probeMinimal env ffprobePath i filepath)
               else (\<lambda>i. probeFull env ffprobePath i filepath)"
    let ?p = "withTimeout (fst (withRetry ?fn (Some (cfg_PROBE_RETRY_TIMES cfg)))) (e_timerFirst env)"
    have fn: "\<exists>m. t = Err m" if "?fn k = Inl t" for k t
      using that probeMinimal_throws_Err probeFull_throws_Err by (auto split: if_splits)
    show ?thesis
    proof (cases ?p)
      case (Inr result)
      with Pair None show ?thesis by (simp add: probe1_def Let_def)
    next
      case (Inl err)
      have "\<exists>m. err = Err m"
      proof (rule withTimeout_throws_Err [OF Inl])
        assume "fst (withRetry ?fn (Some (cfg_PROBE_RETRY_TIMES cfg))) = Inl err"
        from withRetry_throws_Err [of ?fn "cfg_PROBE_RETRY_TIMES cfg" err, OF fn assms this]
        show "\<exists>m. err = Err m" by simp
      qed
      then obtain m where "err = Err m" by blast
      with Pair None Inl show ?thesis by (simp add: probe1_def Let_def message_def)
    qed
  qed
qed

lemma getCacheKey_cache: "pc_cache (snd (getCacheKey env fs c p n)) = pc_cache c"
  by (simp add: getCacheKey_def getFileHash_def split: option.splits)

lemma lru_get_miss: "fst (lru_get ttl now k es) = None \<Longrightarrow> set (snd (lru_get ttl now k es)) \<subseteq> set es"
  by (auto simp add: lru_get_def split: option.splits if_splits)

lemma lru_get_values:
  "le_value ` set (snd (lru_get ttl now k es)) \<subseteq> le_value ` set es"
  by (auto simp add: lru_get_def split: option.splits if_splits dest!: find_Some_iff [THEN iffD1])

lemma lru_get_hit: "fst (lru_get ttl now k es) = Some v \<Longrightarrow> v \<in> le_value ` set es"
  by (auto simp add: lru_get_def split: option.splits if_splits dest!: find_Some_iff [THEN iffD1])

lemma lru_set_values:
  "le_value ` set (lru_set n now k v es) \<subseteq> insert v (le_value ` set es)"
  by (auto simp add: lru_set_def dest!: in_set_takeD)

lemma get_miss_subset:
  "fst (ProbeCache_get cfg env fs c p) = None \<Longrightarrow>
     set (pc_cache (snd (ProbeCache_get cfg env fs c p))) \<subseteq> set (pc_cache c)"
proof (cases "getCacheKey env fs c p (getFileSize fs p)")
  case (Pair k c1)
  assume miss: "fst (ProbeCache_get cfg env fs c p) = None"
  from Pair getCacheKey_cache [of env fs c p "getFileSize fs p"]
  have c1: "pc_cache c1 = pc_cache c" by simp
  show ?thesis
  proof (cases k)
    case None
    with Pair c1 show ?thesis by (simp add: ProbeCache_get_def)
  next
    case (Some key)
    let ?g = "lru_get (nat (cfg_PROBE_CACHE_TTL cfg * 1000)) (e_timeAtGet env) key (pc_cache c1)"
    show ?thesis
    proof (cases "shouldUseCache cfg")
      case False
      then show ?thesis by (simp add: ProbeCache_get_def)
    next
      case True
      with miss Pair Some have "fst ?g = None"
        by (cases ?g) (auto simp add: ProbeCache_get_def split: option.splits)
      from lru_get_miss [OF this] True Pair Some c1 show ?thesis
        by (cases ?g) (auto simp add: ProbeCache_get_def split: option.splits)
    qed
  qed
qed

lemma get_clean:
  assumes "cacheClean c"
  shows "cacheClean (snd (ProbeCache_get cfg env fs c p))"
    and "fst (ProbeCache_get cfg env fs c p) = Some v \<Longrightarrow> \<not> isErrorObject v"
proof -
  obtain k c1 where Pair: "getCacheKey env fs c p (getFileSize fs p) = (k, c1)"
    by (cases "getCacheKey env fs c p (getFileSize fs p)")
  from Pair getCacheKey_cache [of env fs c p "getFileSize fs p"]
  have c1: "pc_cache c1 = pc_cache c" by simp
  from assms have clean: "\<forall>x\<in>le_value ` set (pc_cache c). \<not> isErrorObject x"
    by (simp add: cacheClean_def)
  show "cacheClean (snd (ProbeCache_get cfg env fs c p))"
  proof (cases k)
    case None
    with Pair c1 assms show ?thesis by (simp add: ProbeCache_get_def cacheClean_def)
  next
    case (Some key)
    let ?g = "lru_get (nat (cfg_PROBE_CACHE_TTL cfg * 1000)) (e_timeAtGet env) key (pc_cache c1)"
    from lru_get_values [of "nat (cfg_PROBE_CACHE_TTL cfg * 1000)" "e_timeAtGet env" key "pc_cache c1"]
      clean c1
    have "\<forall>e\<in>set (snd ?g). \<not> isErrorObject (le_value e)" by auto
    with Pair Some assms show ?thesis
      by (cases ?g) (auto simp add: ProbeCache_get_def cacheClean_def split: option.splits)
  qed
  show "\<not> isErrorObject v" if hit: "fst (ProbeCache_get cfg env fs c p) = Some v"
  proof (cases k)
    case None
    with Pair hit show ?thesis by (simp add: ProbeCache_get_def split: if_splits)
  next
    case (Some key)
    let ?g = "lru_get (nat (cfg_PROBE_CACHE_TTL cfg * 1000)) (e_timeAtGet env) key (pc_cache c1)"
    from hit Pair Some have "fst ?g = Some v"
      by (cases ?g) (auto simp add: ProbeCache_get_def split: option.splits if_splits)
    from lru_get_hit [OF this] clean c1 show ?thesis by auto
  qed
qed

lemma set_clean:
  assumes "cacheClean c"
  shows "cacheClean (snd (ProbeCache_set cfg env fs c p (ProbeData d)))"
proof -
  obtain k c1 where Pair: "getCacheKey env fs c p (getFileSize fs p) = (k, c1)"
    by (cases "getCacheKey env fs c p (getFileSize fs p)")
  from Pair getCacheKey_cache [of env fs c p "getFileSize fs p"]
  have c1: "pc_cache c1 = pc_cache c" by simp
  from assms have clean: "\<forall>x\<in>le_value ` set (pc_cache c). \<not> isErrorObject x"
    by (simp add: cacheClean_def)
  show ?thesis
  proof (cases k)
    case None
    with Pair c1 assms show ?thesis by (simp add: ProbeCache_set_def cacheClean_def)
  next
    case (Some key)
    from lru_set_values [of "nat (cfg_PROBE_CACHE_SIZE cfg)" "e_timeAtSet env" key "ProbeData d" "pc_cache c1"]
      clean c1
    have "\<forall>e\<in>set (lru_set (nat (cfg_PROBE_CACHE_SIZE cfg)) (e_timeAtSet env) key (ProbeData d) (pc_cache c1)).
            \<not> isErrorObject (le_value e)"
      by (auto simp add: isErrorObject_def)
    with Pair Some assms show ?thesis
      by (auto simp add: ProbeCache_set_def cacheClean_def)
  qed
qed

lemma partialRead_keeps:
  "st_cache (snd (partialRead D cfg env st f)) = st_cache st"
  "st_runs (snd (partialRead D cfg env st f)) = st_runs st"
  by (auto simp add: partialRead_def readPartialFile_def Let_def
      split: option.splits copyOutcome.splits sum.splits prod.splits if_splits)

lemma runFFProbe_keeps:
  "st_cache (snd (runFFProbe P cfg env st f)) = st_cache st"
  "st_files (snd (runFFProbe P cfg env st f)) = st_files st"
  "length (st_runs (snd (runFFProbe P cfg env st f))) = Suc (length (st_runs st))"
  by (auto simp add: runFFProbe_def Let_def split: execOutcome.splits sum.splits)

lemma finallyCleanup_keeps:
  "fst (finallyCleanup D env t outcome) = fst outcome"
  "st_cache (snd (finallyCleanup D env t outcome)) = st_cache (snd outcome)"
  "st_runs (snd (finallyCleanup D env t outcome)) = st_runs (snd outcome)"
  using cleanup_not_Inl [of D env "snd outcome"] cleanup_cache [of D env "snd outcome"]
  by (auto simp add: finallyCleanup_def split: option.splits sum.splits)

lemma probeAndStore_clean:
  assumes "cacheClean (st_cache st)"
  shows "cacheClean (st_cache (snd (probeAndStore P cfg env st f target)))"
proof (cases "runFFProbe P cfg env st target")
  case (Pair r st3)
  with runFFProbe_keeps(1) [of P cfg env st target] assms
  have c3: "cacheClean (st_cache st3)" by simp
  show ?thesis
  proof (cases r)
    case (Inl err)
    with Pair c3 show ?thesis
      by (simp add: probeAndStore_def split: sum.splits)
  next
    case (Inr result)
    with Pair c3 set_clean [OF c3, of cfg env "st_files st3" f result] show ?thesis
      by (simp add: probeAndStore_def)
  qed
qed

lemma probeAndStore_no_data:
  assumes "\<forall>d. fst (probeAndStore P cfg env st f target) \<noteq> Inr (ProbeData d)"
  shows "st_cache (snd (probeAndStore P cfg env st f target)) = st_cache st"
proof (cases "runFFProbe P cfg env st target")
  case (Pair r st3)
  with runFFProbe_keeps(1) [of P cfg env st target]
  have c3: "st_cache st3 = st_cache st" by simp
  show ?thesis
  proof (cases r)
    case (Inl err)
    with Pair c3 show ?thesis
      by (simp add: probeAndStore_def split: sum.splits)
  next
    case (Inr result)
    with Pair assms show ?thesis
      by (simp add: probeAndStore_def split: if_splits)
  qed
qed

lemma cachedLookup_clean:
  assumes "cacheClean (st_cache st)"
  shows "cacheClean (snd (cachedLookup cfg env st f))"
    and "fst (cachedLookup cfg env st f) = Some v \<Longrightarrow> \<not> isErrorObject v"
  using get_clean [OF assms, of cfg env "st_files st" f] assms
  by (auto simp add: cachedLookup_def split: if_splits)

lemma cachedLookup_miss:
  "fst (cachedLookup cfg env st f) = None \<Longrightarrow>
     set (pc_cache (snd (cachedLookup cfg env st f))) \<subseteq> set (pc_cache (st_cache st))"
  using get_miss_subset [of cfg env "st_files st" "st_cache st" f]
  by (auto simp add: cachedLookup_def split: if_splits)

lemma probe2_cache:
  assumes "cacheClean (st_cache st)"
  shows "cacheClean (st_cache (snd (probe2 D P cfg env st f)))"
    and "(\<forall>d. fst (probe2 D P cfg env st f) \<noteq> Inr (ProbeData d)) \<Longrightarrow>
           set (pc_cache (st_cache (snd (probe2 D P cfg env st f)))) \<subseteq> set (pc_cache (st_cache st))"
proof -
  let ?st1 = "st\<lparr>st_cache := snd (cachedLookup cfg env st f)\<rparr>"
  let ?partial = "partialRead D cfg env ?st1 f"
  let ?target = "case fst ?partial of Some t \<Rightarrow> t | None \<Rightarrow> f"
  let ?out = "probeAndStore P cfg env (snd ?partial) f ?target"
  have c1: "cacheClean (st_cache (snd ?partial))"
    using cachedLookup_clean(1) [OF assms, of cfg env f] by (simp add: partialRead_keeps)
  show "cacheClean (st_cache (snd (probe2 D P cfg env st f)))"
  proof (cases "fst (cachedLookup cfg env st f)")
    case (Some cached)
    with cachedLookup_clean(1) [OF assms, of cfg env f] show ?thesis
      by (simp add: probe2_def Let_def)
  next
    case None
    with probeAndStore_clean [OF c1, of P cfg env f ?target] show ?thesis
      by (simp add: probe2_def Let_def finallyCleanup_keeps)
  qed
  show "set (pc_cache (st_cache (snd (probe2 D P cfg env st f)))) \<subseteq> set (pc_cache (st_cache st))"
    if nd: "\<forall>d. fst (probe2 D P cfg env st f) \<noteq> Inr (ProbeData d)"
  proof (cases "fst (cachedLookup cfg env st f)")
    case (Some cached)
    with cachedLookup_clean(2) [OF assms, of cfg env f cached] nd show ?thesis
      by (cases cached) (simp_all add: probe2_def Let_def isErrorObject_def)
  next
    case None
    with nd have "\<forall>d. fst ?out \<noteq> Inr (ProbeData d)"
      by (simp add: probe2_def Let_def finallyCleanup_keeps)
    from probeAndStore_no_data [OF this] None cachedLookup_miss [OF None] show ?thesis
      by (simp add: probe2_def Let_def finallyCleanup_keeps partialRead_keeps)
  qed
qed

lemma probe1_cache:
  assumes "cacheClean c"
  shows "cacheClean (snd (probe1 cfg env P fs c f))"
    and "(\<forall>d. fst (probe1 cfg env P fs c f) \<noteq> Inr (ProbeData d)) \<Longrightarrow>
           set (pc_cache (snd (probe1 cfg env P fs c f))) \<subseteq> set (pc_cache c)"
proof -
  obtain cached c1 where Pair: "ProbeCache_get cfg env fs c f = (cached, c1)"
    by (cases "ProbeCache_get cfg env fs c f")
  from get_clean [OF assms, of cfg env fs f] Pair
  have c1: "cacheClean c1" and hit: "\<And>v. cached = Some v \<Longrightarrow> \<not> isErrorObject v" by simp_all
  let ?fn = "if shouldUseMinimalProbe cfg
             then (\<lambda>i. probeMinimal env P i f)
             else (\<lambda>i. probeFull env P i f)"
  let ?p = "withTimeout (fst (withRetry ?fn (Some (cfg_PROBE_RETRY_TIMES cfg)))) (e_timerFirst env)"
  show "cacheClean (snd (probe1 cfg env P fs c f))"
  proof (cases cached)
    case (Some v)
    with Pair c1 show ?thesis by (simp add: probe1_def)
  next
    case None
    show ?thesis
    proof (cases ?p)
      case (Inr result)
      with Pair None set_clean [OF c1, of cfg env fs f "toMediaProbeData result"] show ?thesis
        by (simp add: probe1_def Let_def)
    next
      case (Inl err)
      with Pair None c1 show ?thesis
        by (simp add: probe1_def Let_def split: sum.splits)
    qed
  qed
  show "set (pc_cache (snd (probe1 cfg env P fs c f))) \<subseteq> set (pc_cache c)"
    if nd: "\<forall>d. fst (probe1 cfg env P fs c f) \<noteq> Inr (ProbeData d)"
  proof (cases cached)
    case (Some v)
    with Pair hit [of v] nd show ?thesis
      by (cases v) (simp_all add: probe1_def isErrorObject_def)
  next
    case None
    with Pair get_miss_subset [of cfg env fs c f] have sub: "set (pc_cache c1) \<subseteq> set (pc_cache c)"
      by simp
    show ?thesis
    proof (cases ?p)
      case (Inr result)
      with Pair None nd show ?thesis by (simp add: probe1_def Let_def)
    next
      case (Inl err)
      with Pair None sub show ?thesis
        by (simp add: probe1_def Let_def split: sum.splits)
    qed
  qed
qed

subsection \<open>C4: whether probe returns an object whatever fails\<close>

text \<open>
  Under a positive retry count both probers return an object whatever fails. For every
  file path, every state of the cache and of the file system and every outcome of the
  outside world (the copy of the head slice fails or not, each run of the tool fails,
  times out or prints anything, the timer fires or not, the output parses or not, with or
  without a media stream), awaiting \<^verbatim>\<open>probe\<close> gives an object and throws nothing:
  probe data or an object carrying an error description. This holds for the second prober
  as it stands, and for the first prober under every configuration with a positive retry
  count, which is what the configuration module gives for an unset, unparsable, zero or
  positive \<^verbatim>\<open>PROBE_RETRY_TIMES\<close>.
\<close>

theorem probe_never_throws:
  "(0 < cfg_PROBE_RETRY_TIMES cfg \<longrightarrow>
      (\<exists>obj c'. probe1 cfg env ffprobePath fs c filepath = (Inr obj, c'))) \<and>
   (\<exists>obj st'. probe2 TempProbeDir FFProbePath cfg env st filepath = (Inr obj, st'))"
  using probe1_returns [of cfg env ffprobePath fs c filepath]
    probe2_returns [of TempProbeDir FFProbePath cfg env st filepath]
  by blast

theorem probe_never_throws_witness:
  "0 < cfg_PROBE_RETRY_TIMES ex_cfg \<and>
   (\<exists>obj c'. probe1 ex_cfg (ex_env ''garbage'') ''ffprobe'' ex_files emptyCache ''/lib/book.m4b'' = (Inr obj, c')) \<and>
   (\<exists>obj st'. probe2 ex_dir ''ffprobe'' ex_cfg (ex_env ''garbage'') ex_state ''/lib/book.m4b'' = (Inr obj, st'))"
proof -
  have "0 < cfg_PROBE_RETRY_TIMES ex_cfg" by (simp add: ex_cfg_def)
  with probe_never_throws [of ex_cfg "ex_env ''garbage''" "''ffprobe''" ex_files emptyCache
      "''/lib/book.m4b''" ex_dir "''ffprobe''" ex_state]
  show ?thesis by simp
qed

text \<open>
  The retry count is the one thing the first prober relies on: with a count that is not
  positive no attempt is made, \<^verbatim>\<open>withRetry\<close> throws its unassigned
  \<^verbatim>\<open>lastError\<close>, and the catch block of \<^verbatim>\<open>probe\<close> throws a TypeError on reading
  its message.
\<close>

lemma ProbeCache_get_emptyCache: "fst (ProbeCache_get cfg env fs (emptyCache :: 'v probeCache) p) = None"
proof (cases "getCacheKey env fs (emptyCache :: 'v probeCache) p (getFileSize fs p)")
  case (Pair k c1)
  have "pc_cache (snd (getCacheKey env fs (emptyCache :: 'v probeCache) p (getFileSize fs p))) = []"
    using getCacheKey_cache [of env fs "emptyCache :: 'v probeCache" p "getFileSize fs p"]
    by (simp add: emptyCache_def)
  then have "pc_cache c1 = []"
    by (simp add: Pair)
  then show ?thesis
    using Pair by (auto simp add: ProbeCache_get_def lru_get_def split: option.splits prod.splits)
qed

lemma probe1_throws_TypeError:
  assumes "cfg_PROBE_RETRY_TIMES cfg \<le> 0" and "\<not> e_timerFirst env"
      and "fst (ProbeCache_get cfg env fs c filepath) = None"
  shows "fst (probe1 cfg env ffprobePath fs c filepath) =
         Inl (Err ''Cannot read properties of undefined (reading 'message')'')"
proof -
  have neg: "\<not> int 0 < cfg_PROBE_RETRY_TIMES cfg" using assms(1) by simp
  have "fst (withRetry fn (Some (cfg_PROBE_RETRY_TIMES cfg))) = Inl ThrownUndefined"
    for fn :: "nat \<Rightarrow> thrown + probeResult"
    by (simp add: withRetry_def loop_exhausted [OF neg])
  with assms(2,3) show ?thesis
    by (cases "ProbeCache_get cfg env fs c filepath")
       (simp add: probe1_def Let_def withTimeout_def message_def)
qed

lemma retry_times_negative: "PROBE_RETRY_TIMES (JStr ''-1'') = JNum (- 1)"
  by (simp add: PROBE_RETRY_TIMES_def js_or_def truthy_def parseInt_def parseIntString_def
      isWhiteSpace_def digitValue_def)

text \<open>
  Claim C4 fails for the first prober. The configuration module keeps a negative
  \<^verbatim>\<open>PROBE_RETRY_TIMES\<close> (\<^verbatim>\<open>parseInt('-1') || 3\<close> is -1), and under that
  configuration \<^verbatim>\<open>probe\<close> of a file that is not in the cache throws a TypeError past
  its own catch block instead of returning an object.
\<close>

theorem probe_throws_for_negative_retry_count:
  "PROBE_RETRY_TIMES (JStr ''-1'') = JNum (cfg_PROBE_RETRY_TIMES ex_negativeCfg) \<and>
   fst (probe1 ex_negativeCfg (ex_env ''garbage'') ''ffprobe'' ex_files emptyCache ''/lib/book.m4b'') =
     Inl (Err ''Cannot read properties of undefined (reading 'message')'')"
proof -
  have "cfg_PROBE_RETRY_TIMES ex_negativeCfg = - 1"
    by (simp add: ex_negativeCfg_def)
  moreover have "\<not> e_timerFirst (ex_env ''garbage'')"
    by (simp add: ex_env_def)
  ultimately show ?thesis
    using probe1_throws_TypeError [of ex_negativeCfg "ex_env ''garbage''" ex_files emptyCache
        "''/lib/book.m4b''" "''ffprobe''"] ProbeCache_get_emptyCache [of ex_negativeCfg "ex_env ''garbage''" ex_files "''/lib/book.m4b''"]
    by (simp add: retry_times_negative)
qed

subsection \<open>C9: an error result is never stored in the cache\<close>

text \<open>
  Claim C9. Let the cache hold no error object before a call of \<^verbatim>\<open>probe\<close> (the cache
  a process starts with is empty). Then it holds none after the call; when the call does
  not end in probe data (it ends in an error object) every entry of the cache after the
  call was an entry before it, so nothing was inserted; and every later lookup that hits
  returns an object that is not an error object. This holds for both probers.
\<close>

theorem errors_never_cached:
  "(cacheClean c \<longrightarrow>
      cacheClean (snd (probe1 cfg env ffprobePath fs c filepath)) \<and>
      ((\<forall>d. fst (probe1 cfg env ffprobePath fs c filepath) \<noteq> Inr (ProbeData d)) \<longrightarrow>
         set (pc_cache (snd (probe1 cfg env ffprobePath fs c filepath))) \<subseteq> set (pc_cache c)) \<and>
      (\<forall>cfg' env' fs' p v.
         fst (ProbeCache_get cfg' env' fs' (snd (probe1 cfg env ffprobePath fs c filepath)) p) = Some v \<longrightarrow>
         \<not> isErrorObject v)) \<and>
   (cacheClean (st_cache st) \<longrightarrow>
      cacheClean (st_cache (snd (probe2 TempProbeDir FFProbePath cfg env st filepath))) \<and>
      ((\<forall>d. fst (probe2 TempProbeDir FFProbePath cfg env st filepath) \<noteq> Inr (ProbeData d)) \<longrightarrow>
         set (pc_cache (st_cache (snd (probe2 TempProbeDir FFProbePath cfg env st filepath))))
           \<subseteq> set (pc_cache (st_cache st))) \<and>
      (\<forall>cfg' env' fs' p v.
         fst (ProbeCache_get cfg' env' fs' (st_cache (snd (probe2 TempProbeDir FFProbePath cfg env st filepath))) p)
           = Some v \<longrightarrow>
         \<not> isErrorObject v))"
  using probe1_cache [of c cfg env ffprobePath fs filepath]
    probe2_cache [of st TempProbeDir FFProbePath cfg env filepath]
    get_clean(2) [of "snd (probe1 cfg env ffprobePath fs c filepath)"]
    get_clean(2) [of "st_cache (snd (probe2 TempProbeDir FFProbePath cfg env st filepath))"]
  by blast

text \<open>The worked inputs, evaluated.\<close>

lemma parseInt_examples:
  "parseInt (JStr ''128000'') = JNum 128000"
  "parseInt (JStr ''64000'') = JNum 64000"
  "parseInt (JStr ''1000000'') = JNum 1000000"
  "parseInt JUndefined = JNaN"
  by (simp_all add: parseInt_def parseIntString_def isWhiteSpace_def digitValue_def)

lemma parse_video_only:
  "parseProbeData skip (Some ex_videoOnly) = Inl (Err ''No audio stream found'')"
  by (simp add: parseProbeData_def ex_videoOnly_def ex_raw_def ex_stream_def findStream_def)

lemma probe2_video_only:
  "fst (probe2 ex_dir ''ffprobe'' ex_cfg (ex_env ''VIDEO'') ex_state ''/lib/book.m4b'') =
     Inr (ErrorObject ''FFProbe failed: No audio stream found'')"
  by (simp add: probe2_def cachedLookup_def ProbeCache_get_def getCacheKey_def getFileHash_def
      getFileSize_def lru_get_def shouldUseCache_def shouldSkipMetadata_def ex_cfg_def ex_env_def ex_state_def ex_files_def
      emptyCache_def partialRead_def readPartialFile_def probeAndStore_def runFFProbe_def
      ex_parse_def parse_video_only rethrow_def message_def finallyCleanup_keeps Let_def)

theorem errors_never_cached_witness:
  "cacheClean (st_cache ex_state) \<and>
   fst (probe2 ex_dir ''ffprobe'' ex_cfg (ex_env ''VIDEO'') ex_state ''/lib/book.m4b'') =
     Inr (ErrorObject ''FFProbe failed: No audio stream found'') \<and>
   pc_cache (st_cache (snd (probe2 ex_dir ''ffprobe'' ex_cfg (ex_env ''VIDEO'') ex_state ''/lib/book.m4b''))) = []"
proof -
  have clean: "cacheClean (st_cache ex_state)"
    by (simp add: cacheClean_def ex_state_def emptyCache_def)
  have empty: "pc_cache (st_cache ex_state) = []"
    by (simp add: ex_state_def emptyCache_def)
  from errors_never_cached [of emptyCache ex_cfg "ex_env ''VIDEO''" "''ffprobe''" ex_files
      "''/lib/book.m4b''" ex_state ex_dir "''ffprobe''"] clean probe2_video_only empty
  show ?thesis by simp
qed

subsection \<open>C3: an audio stream is required\<close>

lemma findStream_audio:
  "hasStream kind data \<longleftrightarrow>
     findStream kind (case rp_streams data of Some ss \<Rightarrow> ss | None \<Rightarrow> []) \<noteq> None"
  unfolding hasStream_def findStream_def find_None_iff by blast

lemma parse_with_audio:
  assumes "rp_format raw \<noteq> None" and "hasStream ''audio'' raw"
  shows "\<exists>d. parseProbeData skip (Some raw) = Inr d"
proof -
  from assms(2) obtain a where
    "findStream ''audio'' (case rp_streams raw of Some ss \<Rightarrow> ss | None \<Rightarrow> []) = Some a"
    by (auto simp add: findStream_audio)
  with assms(1) show ?thesis
    by (cases "rp_streams raw") (auto simp add: parseProbeData_def findStream_def Let_def)
qed

lemma parse_without_audio:
  assumes "\<not> hasStream ''audio'' raw"
  shows "parseProbeData skip (Some raw) =
           Inl (Err (if rp_format raw = None then ''Invalid ffprobe output'' else ''No audio stream found''))"
proof -
  from assms have
    "findStream ''audio'' (case rp_streams raw of Some ss \<Rightarrow> ss | None \<Rightarrow> []) = None"
    by (simp add: findStream_audio)
  then show ?thesis
    by (cases "rp_streams raw") (auto simp add: parseProbeData_def findStream_def Let_def split: option.splits)
qed

lemma runFFProbe_parse_failure:
  assumes "e_execFile env P = (\<lambda>args. ExecStdout out)" and "e_jsonParse env out = Inr rawData"
      and "parseProbeData (shouldSkipMetadata cfg) rawData = Inl (Err m)"
  shows "fst (runFFProbe P cfg env st target) = Inl (Err (''FFProbe failed: '' @ m))"
  using assms by (simp add: runFFProbe_def Let_def rethrow_def message_def)

lemma probe2_parse_failure:
  assumes miss: "fst (cachedLookup cfg env st filePath) = None"
      and tool: "e_execFile env P = (\<lambda>args. ExecStdout out)"
      and parsed: "e_jsonParse env out = Inr rawData"
      and fails: "parseProbeData (shouldSkipMetadata cfg) rawData = Inl (Err m)"
  shows "fst (probe2 D P cfg env st filePath) = Inr (ErrorObject (''FFProbe failed: '' @ m))"
    and "length (st_runs (snd (probe2 D P cfg env st filePath))) = Suc (length (st_runs st))"
proof -
  let ?st1 = "st\<lparr>st_cache := snd (cachedLookup cfg env st filePath)\<rparr>"
  let ?partial = "partialRead D cfg env ?st1 filePath"
  let ?target = "case fst ?partial of Some t \<Rightarrow> t | None \<Rightarrow> filePath"
  have r: "fst (runFFProbe P cfg env (snd ?partial) ?target) = Inl (Err (''FFProbe failed: '' @ m))"
    by (rule runFFProbe_parse_failure [OF tool parsed fails])
  then have "fst (probeAndStore P cfg env (snd ?partial) filePath ?target) =
      Inr (ErrorObject (''FFProbe failed: '' @ m))"
    by (cases "runFFProbe P cfg env (snd ?partial) ?target") (simp add: probeAndStore_def message_def)
  with miss show "fst (probe2 D P cfg env st filePath) = Inr (ErrorObject (''FFProbe failed: '' @ m))"
    by (simp add: probe2_def Let_def finallyCleanup_keeps)
  have "st_runs (snd (probeAndStore P cfg env (snd ?partial) filePath ?target)) =
        st_runs (snd (runFFProbe P cfg env (snd ?partial) ?target))"
    by (cases "runFFProbe P cfg env (snd ?partial) ?target")
       (auto simp add: probeAndStore_def split: sum.splits)
  with miss runFFProbe_keeps(3) [of P cfg env "snd ?partial" ?target]
  show "length (st_runs (snd (probe2 D P cfg env st filePath))) = Suc (length (st_runs st))"
    by (simp add: probe2_def Let_def finallyCleanup_keeps partialRead_keeps)
qed

text \<open>
  Claim C3, as amended. Parsing the output of the tool succeeds only when an audio
  stream is present: for every output with a format section and at least one audio
  stream the validation passes; for every output without an audio stream (no stream at
  all, or video streams only) \<^verbatim>\<open>parseProbeData\<close> throws. When the second prober meets
  such an output after a cache miss, \<^verbatim>\<open>probe\<close> returns the error object with the
  message of the failure, and the tool has been run once: the failure is not retried.
\<close>

theorem audio_stream_required:
  "(rp_format raw \<noteq> None \<and> hasStream ''audio'' raw \<longrightarrow>
      (\<exists>d. parseProbeData skip (Some raw) = Inr d)) \<and>
   (\<not> hasStream ''audio'' raw \<longrightarrow>
      parseProbeData skip (Some raw) =
        Inl (Err (if rp_format raw = None then ''Invalid ffprobe output'' else ''No audio stream found'')) \<and>
      (fst (cachedLookup cfg env st filePath) = None \<and>
       e_execFile env FFProbePath = (\<lambda>args. ExecStdout out) \<and>
       e_jsonParse env out = Inr (Some raw) \<longrightarrow>
         fst (probe2 TempProbeDir FFProbePath cfg env st filePath) =
           Inr (ErrorObject (''FFProbe failed: '' @
                  (if rp_format raw = None then ''Invalid ffprobe output'' else ''No audio stream found''))) \<and>
         length (st_runs (snd (probe2 TempProbeDir FFProbePath cfg env st filePath))) =
           Suc (length (st_runs st))))"
proof (intro conjI impI)
  assume "rp_format raw \<noteq> None \<and> hasStream ''audio'' raw"
  then show "\<exists>d. parseProbeData skip (Some raw) = Inr d"
    using parse_with_audio by blast
next
  assume "\<not> hasStream ''audio'' raw"
  then show "parseProbeData skip (Some raw) =
        Inl (Err (if rp_format raw = None then ''Invalid ffprobe output'' else ''No audio stream found''))"
    by (rule parse_without_audio)
next
  assume na: "\<not> hasStream ''audio'' raw"
    and h: "fst (cachedLookup cfg env st filePath) = None \<and>
       e_execFile env FFProbePath = (\<lambda>args. ExecStdout out) \<and>
       e_jsonParse env out = Inr (Some raw)"
  from parse_without_audio [OF na, of "shouldSkipMetadata cfg"] h
    probe2_parse_failure(1) [of cfg env st filePath FFProbePath out "Some raw" _ TempProbeDir]
  show "fst (probe2 TempProbeDir FFProbePath cfg env st filePath) =
           Inr (ErrorObject (''FFProbe failed: '' @
                  (if rp_format raw = None then ''Invalid ffprobe output'' else ''No audio stream found'')))"
    by blast
next
  assume na: "\<not> hasStream ''audio'' raw"
    and h: "fst (cachedLookup cfg env st filePath) = None \<and>
       e_execFile env FFProbePath = (\<lambda>args. ExecStdout out) \<and>
       e_jsonParse env out = Inr (Some raw)"
  from parse_without_audio [OF na, of "shouldSkipMetadata cfg"] h
    probe2_parse_failure(2) [of cfg env st filePath FFProbePath out "Some raw" _ TempProbeDir]
  show "length (st_runs (snd (probe2 TempProbeDir FFProbePath cfg env st filePath))) =
           Suc (length (st_runs st))"
    by blast
qed

theorem audio_stream_required_witness:
  "rp_format ex_audioNoRate \<noteq> None \<and> hasStream ''audio'' ex_audioNoRate \<and>
   (\<exists>d. parseProbeData False (Some ex_audioNoRate) = Inr d) \<and>
   \<not> hasStream ''audio'' ex_videoOnly \<and>
   fst (cachedLookup ex_cfg (ex_env ''VIDEO'') ex_state ''/lib/book.m4b'') = None \<and>
   e_jsonParse (ex_env ''VIDEO'') ''VIDEO'' = Inr (Some ex_videoOnly) \<and>
   fst (probe2 ex_dir ''ffprobe'' ex_cfg (ex_env ''VIDEO'') ex_state ''/lib/book.m4b'') =
     Inr (ErrorObject ''FFProbe failed: No audio stream found'') \<and>
   length (st_runs (snd (probe2 ex_dir ''ffprobe'' ex_cfg (ex_env ''VIDEO'') ex_state ''/lib/book.m4b''))) = 1"
proof -
  have a: "rp_format ex_audioNoRate \<noteq> None" "hasStream ''audio'' ex_audioNoRate"
    by (simp_all add: ex_audioNoRate_def ex_raw_def ex_stream_def hasStream_def)
  have v: "\<not> hasStream ''audio'' ex_videoOnly" "rp_format ex_videoOnly \<noteq> None"
    by (simp_all add: ex_videoOnly_def ex_raw_def ex_stream_def hasStream_def)
  have miss: "fst (cachedLookup ex_cfg (ex_env ''VIDEO'') ex_state ''/lib/book.m4b'') = None"
    by (simp add: cachedLookup_def ProbeCache_get_def getCacheKey_def getFileHash_def
        getFileSize_def lru_get_def shouldUseCache_def ex_cfg_def ex_env_def ex_state_def
        ex_files_def emptyCache_def)
  have tool: "e_execFile (ex_env ''VIDEO'') ''ffprobe'' = (\<lambda>args. ExecStdout ''VIDEO'')"
    "e_jsonParse (ex_env ''VIDEO'') ''VIDEO'' = Inr (Some ex_videoOnly)"
    by (simp_all add: ex_env_def ex_parse_def)
  have runs: "st_runs ex_state = []" by (simp add: ex_state_def)
  from audio_stream_required [of ex_audioNoRate False] a
  have "\<exists>d. parseProbeData False (Some ex_audioNoRate) = Inr d" by blast
  moreover
  from audio_stream_required [of ex_videoOnly False ex_cfg "ex_env ''VIDEO''" ex_state
      "''/lib/book.m4b''" "''ffprobe''" "''VIDEO''" ex_dir] v miss tool runs
  have "fst (probe2 ex_dir ''ffprobe'' ex_cfg (ex_env ''VIDEO'') ex_state ''/lib/book.m4b'') =
     Inr (ErrorObject ''FFProbe failed: No audio stream found'') \<and>
   length (st_runs (snd (probe2 ex_dir ''ffprobe'' ex_cfg (ex_env ''VIDEO'') ex_state ''/lib/book.m4b''))) = 1"
    by simp
  ultimately show ?thesis using a v miss tool by simp
qed

text \<open>
  The claim as it was written lets a video stream pass the validation.
  \<^verbatim>\<open>parseProbeData\<close> looks for the video stream too, but throws
  \<^verbatim>\<open>No audio stream found\<close> whenever there is no audio stream: an output with a video
  stream only fails.
\<close>

theorem video_only_counterexample:
  "hasStream ''video'' ex_videoOnly \<and>
   parseProbeData False (Some ex_videoOnly) = Inl (Err ''No audio stream found'')"
proof -
  have "hasStream ''video'' ex_videoOnly"
    by (simp add: hasStream_def ex_videoOnly_def ex_raw_def ex_stream_def)
  then show ?thesis by (simp add: parse_video_only)
qed

subsection \<open>C7: the bit rate and its fallback\<close>

text \<open>\<^verbatim>\<open>transformMinimalData\<close> and \<^verbatim>\<open>transformFullData\<close> take the bit rate of the
  format section when it parses to a number other than zero, and otherwise the parsed
  bit rate of the first audio stream, 0 when there is no audio stream.\<close>

lemma transform_bit_rate:
  "res_bit_rate (transformMinimalData data) =
     (let format = (case rp_format data of Some f \<Rightarrow> f | None \<Rightarrow> emptyFormat);
          audio = findStream ''audio'' (case rp_streams data of Some ss \<Rightarrow> ss | None \<Rightarrow> [])
      in if truthy (parseInt (rf_bit_rate format)) then parseInt (rf_bit_rate format)
         else case audio of Some a \<Rightarrow> parseInt (rs_bit_rate a) | None \<Rightarrow> JNum 0)"
  "res_bit_rate (transformFullData data) =
     (let format = (case rp_format data of Some f \<Rightarrow> f | None \<Rightarrow> emptyFormat);
          audio = findStream ''audio'' (case rp_streams data of Some ss \<Rightarrow> ss | None \<Rightarrow> [])
      in if truthy (parseInt (rf_bit_rate format)) then parseInt (rf_bit_rate format)
         else case audio of Some a \<Rightarrow> parseInt (rs_bit_rate a) | None \<Rightarrow> JNum 0)"
  by (simp_all add: transformMinimalData_def transformFullData_def Let_def js_or_def)

text \<open>
  Claim C7 fails on \<^verbatim>\<open>parseProbeData\<close>, which has no fallback
  (\<^verbatim>\<open>parseInt(rawData.format.bit_rate) || 0\<close>): for an output whose format section has
  no bit rate and whose audio stream has the bit rate 128000 it returns the bit rate 0,
  next to an audio stream with bit rate 128000, where the two other functions return
  128000.
\<close>

theorem parseProbeData_bit_rate_no_fallback:
  "(\<exists>r. parseProbeData False (Some ex_audioNoRate) = Inr r \<and>
        res_bit_rate r = JNum 0 \<and>
        map_option ai_bit_rate (res_audio_stream r) = Some (JNum 128000)) \<and>
   res_bit_rate (transformMinimalData ex_audioNoRate) = JNum 128000 \<and>
   res_bit_rate (transformFullData ex_audioNoRate) = JNum 128000"
  by (simp add: parseProbeData_def transform_bit_rate ex_audioNoRate_def ex_raw_def ex_stream_def
      findStream_def js_or_def truthy_def parseInt_examples Let_def)

subsection \<open>C10: what cleanupTempFile deletes\<close>

text \<open>
  Claim C10, as amended. \<^verbatim>\<open>cleanupTempFile\<close> never throws, whatever \<^verbatim>\<open>fs.unlink\<close>
  does, and leaves the cache and the record of runs alone; a file whose entry in the
  file system differs after the call is the file at the given path, the text of that
  path contains the text of \<^verbatim>\<open>TempProbeDir\<close>, and the file is gone. So for every path
  whose text does not contain \<^verbatim>\<open>TempProbeDir\<close> nothing is deleted.
\<close>

theorem cleanup_guard:
  "\<exists>st'. cleanupTempFile TempProbeDir env st tempFile = Inr st' \<and>
         st_cache st' = st_cache st \<and> st_runs st' = st_runs st \<and>
         (\<forall>p. st_files st' p \<noteq> st_files st p \<longrightarrow>
            tempFile = Some p \<and> js_includes p TempProbeDir \<and> st_files st' p = None)"
  by (auto simp add: cleanupTempFile_def cleanupTempFile_try_def unlink_def
      split: option.splits sum.splits if_splits)

lemma ex_temp_includes: "js_includes ex_temp ex_dir"
  by (simp add: ex_temp_def ex_dir_def)

lemma ex_other_includes: "js_includes ex_other ex_dir"
  by (simp add: ex_other_def ex_dir_def)

lemma cleanup_ex_temp:
  "cleanupTempFile ex_dir (ex_env ''AUDIO'') ex_tempState (Some ex_temp) =
     Inr (ex_tempState\<lparr>st_files := (st_files ex_tempState)(ex_temp := None)\<rparr>)"
  using ex_temp_includes
  by (simp add: cleanupTempFile_def cleanupTempFile_try_def unlink_def ex_tempState_def ex_env_def)
     (simp add: ex_temp_def)

theorem cleanup_guard_witness:
  "st_files ex_tempState ex_temp \<noteq> None \<and> js_includes ex_temp ex_dir \<and>
   (\<exists>st'. cleanupTempFile ex_dir (ex_env ''AUDIO'') ex_tempState (Some ex_temp) = Inr st' \<and>
          st_files st' ex_temp = None \<and>
          st_files st' ''/lib/book.m4b'' = st_files ex_tempState ''/lib/book.m4b'')"
proof -
  have here: "st_files ex_tempState ex_temp \<noteq> None" by (simp add: ex_tempState_def)
  have ne: "''/lib/book.m4b'' \<noteq> ex_temp" by (simp add: ex_temp_def)
  from cleanup_guard [of ex_dir "ex_env ''AUDIO''" ex_tempState "Some ex_temp"]
  obtain st' where st': "cleanupTempFile ex_dir (ex_env ''AUDIO'') ex_tempState (Some ex_temp) = Inr st'"
    and only: "\<forall>p. st_files st' p \<noteq> st_files ex_tempState p \<longrightarrow>
            Some ex_temp = Some p \<and> js_includes p ex_dir \<and> st_files st' p = None"
    by blast
  from st' cleanup_ex_temp have "st_files st' ex_temp = None" by auto
  moreover from only ne have "st_files st' ''/lib/book.m4b'' = st_files ex_tempState ''/lib/book.m4b''"
    by auto
  ultimately show ?thesis using here ex_temp_includes st' by blast
qed

text \<open>
  The claim as it was written speaks of every path outside the directory. The guard is
  \<^verbatim>\<open>tempFile.includes(this.TempProbeDir)\<close>, a test on the text of the path: a file in
  the sibling directory \<^verbatim>\<open>/tmp/abs-probe-cache-old\<close> is outside the directory
  \<^verbatim>\<open>/tmp/abs-probe-cache\<close> and is deleted.
\<close>

theorem cleanup_outside_directory_counterexample:
  "\<not> insideDirectory ex_dir ex_other \<and>
   st_files ex_tempState ex_other \<noteq> None \<and>
   cleanupTempFile ex_dir (ex_env ''AUDIO'') ex_tempState (Some ex_other) =
     Inr (ex_tempState\<lparr>st_files := (st_files ex_tempState)(ex_other := None)\<rparr>)"
  using ex_other_includes
  by (simp add: insideDirectory_def cleanupTempFile_def cleanupTempFile_try_def unlink_def
      ex_tempState_def ex_env_def)
     (simp add: ex_other_def ex_dir_def)

subsection \<open>C8: the statistics and the hit rate\<close>





















end
